theory Spec2Isabelle
  imports Complex_Main
begin

section \<open>Errors and handles\<close>

text \<open>
  The module \<^verbatim>\<open>geoFunctions.py\<close> raises \<^verbatim>\<open>ValueError\<close> itself (lines 55 and 92),
  indexes Python dictionaries (lines 165 to 168, \<^verbatim>\<open>KeyError\<close> on a missing key) and
  lets a failure of the Earth Engine service surface from \<^verbatim>\<open>getInfo()\<close>
  (\<^verbatim>\<open>EEException\<close>). Every such exit is a value \<open>Inl e\<close> of the result type.
\<close>

datatype error = ValueError string | KeyError string | EEException string

text \<open>
  An object of the Earth Engine client (\<^verbatim>\<open>ee.Image\<close>, \<^verbatim>\<open>ee.ImageCollection\<close>, ...)
  is a handle to a computation that the service carries out when \<^verbatim>\<open>getInfo()\<close> asks
  for it. Building the handle never raises in Python. The handle is represented by
  what the computation yields: \<open>Inr v\<close> for a value, \<open>Inl msg\<close> for a computation
  the service will reject with the message \<open>msg\<close>.
\<close>

type_synonym 'a computed = "string + 'a"

section \<open>Images\<close>

text \<open>
  A pixel is a cell of the grid the service works on. A raster gives every pixel a
  value or no data (\<open>None\<close>, a masked pixel). Pixel values are real numbers: the
  arithmetic of the service is taken to be exact.
\<close>

type_synonym pixel = "int \<times> int"
type_synonym raster = "pixel \<Rightarrow> real option"

datatype jvalue = JNull | JNum real | JStr string

record image_data =
  bands :: "(string \<times> raster) list"
  properties :: "string \<rightharpoonup> jvalue"
  footprint :: "pixel list"

type_synonym image = "image_data computed"

definition band_names :: "image_data \<Rightarrow> string list" where
  "band_names d = map fst (bands d)"

text \<open>\<^verbatim>\<open>image.select(name)\<close>: the image with only the band of that name; the
  service rejects a name that matches no band.\<close>

definition ee_select :: "image \<Rightarrow> string \<Rightarrow> image" where
  "ee_select img b =
     (case img of
        Inl msg \<Rightarrow> Inl msg
      | Inr d \<Rightarrow>
          if b \<in> set (band_names d)
          then Inr (d\<lparr>bands := filter (\<lambda>nb. fst nb = b) (bands d)\<rparr>)
          else Inl (''Image.select: Band pattern '' @ b @ '' did not match any bands.''))"


text \<open>\<^verbatim>\<open>image.rename(name)\<close> with one name: the single band of the image takes
  that name; the service rejects an image that has not exactly one band.\<close>

definition ee_rename :: "image \<Rightarrow> string \<Rightarrow> image" where
  "ee_rename img name =
     (case img of
        Inl msg \<Rightarrow> Inl msg
      | Inr d \<Rightarrow>
          (case bands d of
             [(_, r)] \<Rightarrow> Inr (d\<lparr>bands := [(name, r)]\<rparr>)
           | _ \<Rightarrow> Inl ''Image.rename: The number of names must match the number of bands.''))"

text \<open>\<^verbatim>\<open>image.get(key)\<close> and \<^verbatim>\<open>image.set(key, value)\<close>: a property that is not
  set reads as null.\<close>

definition ee_get :: "image \<Rightarrow> string \<Rightarrow> jvalue computed" where
  "ee_get img key =
     (case img of
        Inl msg \<Rightarrow> Inl msg
      | Inr d \<Rightarrow> Inr (case properties d key of None \<Rightarrow> JNull | Some v \<Rightarrow> v))"

definition ee_set :: "image \<Rightarrow> string \<Rightarrow> jvalue computed \<Rightarrow> image" where
  "ee_set img key v =
     (case img of
        Inl msg \<Rightarrow> Inl msg
      | Inr d \<Rightarrow>
          (case v of
             Inl msg \<Rightarrow> Inl msg
           | Inr x \<Rightarrow> Inr (d\<lparr>properties := (properties d)(key \<mapsto> x)\<rparr>)))"

subsection \<open>Expressions\<close>

text \<open>
  \<^verbatim>\<open>image.expression(text, map)\<close> evaluates an arithmetic expression pixel by pixel.
  The text is represented by its syntax tree. A name of the expression stands for the
  first band of the image that the map gives it. A pixel of the result has no data
  where an operand has none and where a divisor is zero. The result has one band,
  named after the leftmost operand (\<^verbatim>\<open>constant\<close> for a number), carries no
  properties and has the footprint of the image the expression is called on.
\<close>

datatype expr =
    Num real
  | Var string
  | Add expr expr
  | Sub expr expr
  | Mul expr expr
  | Div expr expr

fun vars :: "expr \<Rightarrow> string list" where
  "vars (Num c) = []"
| "vars (Var v) = [v]"
| "vars (Add a b) = vars a @ vars b"
| "vars (Sub a b) = vars a @ vars b"
| "vars (Mul a b) = vars a @ vars b"
| "vars (Div a b) = vars a @ vars b"

fun eval_expr :: "(string \<Rightarrow> real option) \<Rightarrow> expr \<Rightarrow> real option" where
  "eval_expr env (Num c) = Some c"
| "eval_expr env (Var v) = env v"
| "eval_expr env (Add a b) =
     (case (eval_expr env a, eval_expr env b) of
        (Some x, Some y) \<Rightarrow> Some (x + y) | _ \<Rightarrow> None)"
| "eval_expr env (Sub a b) =
     (case (eval_expr env a, eval_expr env b) of
        (Some x, Some y) \<Rightarrow> Some (x - y) | _ \<Rightarrow> None)"
| "eval_expr env (Mul a b) =
     (case (eval_expr env a, eval_expr env b) of
        (Some x, Some y) \<Rightarrow> Some (x * y) | _ \<Rightarrow> None)"
| "eval_expr env (Div a b) =
     (case (eval_expr env a, eval_expr env b) of
        (Some x, Some y) \<Rightarrow> (if y = 0 then None else Some (x / y)) | _ \<Rightarrow> None)"

fun leftmost_name :: "(string \<rightharpoonup> string \<times> raster) \<Rightarrow> expr \<Rightarrow> string" where
  "leftmost_name env (Num c) = ''constant''"
| "leftmost_name env (Var v) = (case env v of Some (n, _) \<Rightarrow> n | None \<Rightarrow> ''constant'')"
| "leftmost_name env (Add a b) = leftmost_name env a"
| "leftmost_name env (Sub a b) = leftmost_name env a"
| "leftmost_name env (Mul a b) = leftmost_name env a"
| "leftmost_name env (Div a b) = leftmost_name env a"

definition first_band :: "image \<Rightarrow> (string \<times> raster) computed" where
  "first_band img =
     (case img of
        Inl msg \<Rightarrow> Inl msg
      | Inr d \<Rightarrow>
          (case bands d of
             [] \<Rightarrow> Inl ''Image.expression: operand image has no bands.''
           | nr # _ \<Rightarrow> Inr nr))"

fun operands :: "(string \<times> image) list \<Rightarrow> (string \<times> string \<times> raster) list computed" where
  "operands [] = Inr []"
| "operands ((v, img) # rest) =
     (case first_band img of
        Inl msg \<Rightarrow> Inl msg
      | Inr nr \<Rightarrow>
          (case operands rest of
             Inl msg \<Rightarrow> Inl msg
           | Inr env \<Rightarrow> Inr ((v, nr) # env)))"

definition pixel_env :: "(string \<rightharpoonup> string \<times> raster) \<Rightarrow> pixel \<Rightarrow> string \<Rightarrow> real option" where
  "pixel_env env p v = (case env v of None \<Rightarrow> None | Some (_, r) \<Rightarrow> r p)"

definition ee_expression :: "image \<Rightarrow> expr \<Rightarrow> (string \<times> image) list \<Rightarrow> image" where
  "ee_expression img e args =
     (case img of
        Inl msg \<Rightarrow> Inl msg
      | Inr d \<Rightarrow>
          (case operands args of
             Inl msg \<Rightarrow> Inl msg
           | Inr env \<Rightarrow>
               if set (vars e) \<subseteq> fst ` set env
               then Inr \<lparr>bands = [(leftmost_name (map_of env) e,
                                     \<lambda>p. eval_expr (pixel_env (map_of env) p) e)],
                          properties = Map.empty,
                          footprint = footprint d\<rparr>
               else Inl ''Image.expression: unknown variable.''))"


section \<open>Dates\<close>

text \<open>
  The service counts time in milliseconds since 1970-01-01 (the property
  \<^verbatim>\<open>system:time_start\<close>); dates travel as text \<^verbatim>\<open>YYYY-MM-DD\<close>. The two
  conversions between a day number and a civil date (year, month, day) of the
  proleptic Gregorian calendar work on years that begin on 1 March, in eras of 400
  years (146097 days).
\<close>

definition days_from_civil :: "int \<Rightarrow> int \<Rightarrow> int \<Rightarrow> int" where
  "days_from_civil y0 m d =
     (let y = (if m \<le> 2 then y0 - 1 else y0);
          era = y div 400;
          yoe = y - era * 400;
          doy = (153 * (if m > 2 then m - 3 else m + 9) + 2) div 5 + d - 1;
          doe = yoe * 365 + yoe div 4 - yoe div 100 + doy
      in era * 146097 + doe - 719468)"

definition civil_from_days :: "int \<Rightarrow> int \<times> int \<times> int" where
  "civil_from_days z0 =
     (let z = z0 + 719468;
          era = z div 146097;
          doe = z - era * 146097;
          c = min 3 (doe div 36524);
          r1 = doe - c * 36524;
          q = min 24 (r1 div 1461);
          r2 = r1 - q * 1461;
          y1 = min 3 (r2 div 365);
          doy = r2 - y1 * 365;
          y = era * 400 + c * 100 + q * 4 + y1;
          mp = (5 * doy + 2) div 153;
          d = doy - (153 * mp + 2) div 5 + 1;
          m = (if mp < 10 then mp + 3 else mp - 9)
      in (if m \<le> 2 then y + 1 else y, m, d))"

definition digit_val :: "char \<Rightarrow> int option" where
  "digit_val c =
     (let n = (of_char c :: nat) in if 48 \<le> n \<and> n \<le> 57 then Some (int n - 48) else None)"

definition digit_char :: "int \<Rightarrow> char" where
  "digit_char n = char_of (48 + nat n)"

definition pad2 :: "int \<Rightarrow> string" where
  "pad2 n = [digit_char (n div 10), digit_char (n mod 10)]"

definition pad4 :: "int \<Rightarrow> string" where
  "pad4 n = [digit_char (n div 1000), digit_char (n div 100 mod 10),
             digit_char (n div 10 mod 10), digit_char (n mod 10)]"

text \<open>Reading \<^verbatim>\<open>YYYY-MM-DD\<close>: four, two and two digits, a month from 1 to 12 and
  a day from 1 to 31.\<close>

fun parse_date :: "string \<Rightarrow> (int \<times> int \<times> int) option" where
  "parse_date [y1, y2, y3, y4, s1, m1, m2, s2, d1, d2] =
     (case map digit_val [y1, y2, y3, y4, m1, m2, d1, d2] of
        [Some a, Some b, Some c, Some d, Some e, Some f, Some g, Some h] \<Rightarrow>
          (let y = 1000 * a + 100 * b + 10 * c + d; m = 10 * e + f; dd = 10 * g + h
           in if s1 = CHR ''-'' \<and> s2 = CHR ''-'' \<and> 1 \<le> m \<and> m \<le> 12 \<and> 1 \<le> dd \<and> dd \<le> 31
              then Some (y, m, dd) else None)
      | _ \<Rightarrow> None)"
| "parse_date _ = None"

definition millis_per_day :: int where
  "millis_per_day = 86400000"

definition date_millis :: "string \<Rightarrow> int option" where
  "date_millis s =
     (case parse_date s of
        None \<Rightarrow> None
      | Some (y, m, d) \<Rightarrow> Some (days_from_civil y m d * millis_per_day))"

text \<open>\<^verbatim>\<open>ee.Date(value)\<close> of a number of milliseconds, and
  \<^verbatim>\<open>date.format('YYYY-MM-dd')\<close>. The model renders the years 0000 to 9999 and
  this one pattern.\<close>

definition ee_Date :: "jvalue computed \<Rightarrow> int computed" where
  "ee_Date v =
     (case v of
        Inl msg \<Rightarrow> Inl msg
      | Inr (JNum t) \<Rightarrow> Inr \<lfloor>t\<rfloor>
      | Inr _ \<Rightarrow> Inl ''Date: Parameter value is required and must be a number.'')"

definition ee_Date_format :: "int computed \<Rightarrow> string \<Rightarrow> jvalue computed" where
  "ee_Date_format date pattern =
     (case date of
        Inl msg \<Rightarrow> Inl msg
      | Inr t \<Rightarrow>
          (case civil_from_days (t div millis_per_day) of
             (y, m, d) \<Rightarrow>
               if pattern = ''YYYY-MM-dd'' \<and> 0 \<le> y \<and> y \<le> 9999
               then Inr (JStr (pad4 y @ ''-'' @ pad2 m @ ''-'' @ pad2 d))
               else Inl ''Date.format: outside the years and patterns of the model.''))"

section \<open>Collections, regions and reductions\<close>

text \<open>
  The state of the client: whether \<^verbatim>\<open>ee.Initialize()\<close> has run, and the data
  catalogue of the service, which gives the images of a named collection in the
  order the service keeps them.
\<close>

record backend =
  initialized :: bool
  catalog :: "string \<rightharpoonup> image_data list"

type_synonym collection = "image_data list computed"

text \<open>A region is the list of the pixels it covers.\<close>

type_synonym geometry = "pixel list"

definition ee_Initialize :: "backend \<Rightarrow> backend" where
  "ee_Initialize s = s\<lparr>initialized := True\<rparr>"

definition ee_ImageCollection :: "backend \<Rightarrow> string \<Rightarrow> collection" where
  "ee_ImageCollection s name =
     (case catalog s name of
        None \<Rightarrow> Inl (''ImageCollection.load: ImageCollection asset '' @ name @ '' not found.'')
      | Some imgs \<Rightarrow> Inr imgs)"

definition time_start :: "image_data \<Rightarrow> int option" where
  "time_start d = (case properties d ''system:time_start'' of Some (JNum t) \<Rightarrow> Some \<lfloor>t\<rfloor> | _ \<Rightarrow> None)"

text \<open>\<^verbatim>\<open>collection.filterDate(start, end)\<close>: the images whose capture time is at or
  after the start and before the end, in the order of the collection.\<close>

definition in_date_range :: "int \<Rightarrow> int \<Rightarrow> image_data \<Rightarrow> bool" where
  "in_date_range t0 t1 d = (case time_start d of None \<Rightarrow> False | Some t \<Rightarrow> t0 \<le> t \<and> t < t1)"

definition ee_filterDate :: "collection \<Rightarrow> string \<Rightarrow> string \<Rightarrow> collection" where
  "ee_filterDate coll start_date end_date =
     (case coll of
        Inl msg \<Rightarrow> Inl msg
      | Inr imgs \<Rightarrow>
          (case (date_millis start_date, date_millis end_date) of
             (Some t0, Some t1) \<Rightarrow> Inr (filter (in_date_range t0 t1) imgs)
           | _ \<Rightarrow> Inl ''Collection.filterDate: Invalid date.''))"

text \<open>\<^verbatim>\<open>collection.filterBounds(geometry)\<close>: the images whose footprint meets the
  region.\<close>

definition intersects :: "geometry \<Rightarrow> image_data \<Rightarrow> bool" where
  "intersects g d = (\<exists>p \<in> set (footprint d). p \<in> set g)"

definition ee_filterBounds :: "collection \<Rightarrow> geometry \<Rightarrow> collection" where
  "ee_filterBounds coll g =
     (case coll of
        Inl msg \<Rightarrow> Inl msg
      | Inr imgs \<Rightarrow> Inr (filter (intersects g) imgs))"

subsection \<open>Reducers\<close>

datatype reducer = Mean | Median | Sum | Min | Max

fun reduce_values :: "reducer \<Rightarrow> real list \<Rightarrow> real option" where
  "reduce_values r [] = None"
| "reduce_values Mean vs = Some (sum_list vs / real (length vs))"
| "reduce_values Median vs =
     (let srt = sort vs; n = length vs
      in Some (if even n then (srt ! (n div 2 - 1) + srt ! (n div 2)) / 2 else srt ! (n div 2)))"
| "reduce_values Sum vs = Some (sum_list vs)"
| "reduce_values Min (v # vs) = Some (fold min vs v)"
| "reduce_values Max (v # vs) = Some (fold max vs v)"

definition band_raster :: "image_data \<Rightarrow> string \<Rightarrow> raster" where
  "band_raster d n = (case map_of (bands d) n of None \<Rightarrow> (\<lambda>p. None) | Some r \<Rightarrow> r)"

text \<open>\<^verbatim>\<open>collection.mean()\<close>, \<^verbatim>\<open>.median()\<close>, \<^verbatim>\<open>.sum()\<close>, \<^verbatim>\<open>.min()\<close>,
  \<^verbatim>\<open>.max()\<close>: for every band of the first image and every pixel, the reducer over
  the values that the images of the collection have there.\<close>

definition ee_reduce :: "reducer \<Rightarrow> collection \<Rightarrow> image" where
  "ee_reduce r coll =
     (case coll of
        Inl msg \<Rightarrow> Inl msg
      | Inr [] \<Rightarrow> Inr \<lparr>bands = [], properties = Map.empty, footprint = []\<rparr>
      | Inr (d # ds) \<Rightarrow>
          Inr \<lparr>bands = map (\<lambda>n. (n, \<lambda>p. reduce_values r
                                          (List.map_filter (\<lambda>i. band_raster i n p) (d # ds))))
                          (band_names d),
               properties = Map.empty,
               footprint = concat (map footprint (d # ds))\<rparr>)"

text \<open>\<^verbatim>\<open>image.reduceRegion(reducer, geometry, scale)\<close>: a dictionary that gives every
  band of the image the reducer over the values of the band on the pixels of the
  region, null where the region holds no value. The grid of the model is the grid at
  the scale asked for.\<close>

definition ee_reduceRegion ::
    "image \<Rightarrow> reducer \<Rightarrow> geometry \<Rightarrow> real \<Rightarrow> (string \<times> jvalue) list computed" where
  "ee_reduceRegion img r g scale =
     (case img of
        Inl msg \<Rightarrow> Inl msg
      | Inr d \<Rightarrow>
          Inr (map (\<lambda>(n, rs). (n, case reduce_values r (List.map_filter rs g) of
                                      None \<Rightarrow> JNull | Some v \<Rightarrow> JNum v))
                   (bands d)))"

definition ee_Dictionary_get :: "(string \<times> jvalue) list computed \<Rightarrow> string \<Rightarrow> jvalue computed" where
  "ee_Dictionary_get dict key =
     (case dict of
        Inl msg \<Rightarrow> Inl msg
      | Inr kvs \<Rightarrow>
          (case map_of kvs key of
             None \<Rightarrow> Inl (''Dictionary.get: Dictionary does not contain key: '' @ key @ ''.'')
           | Some v \<Rightarrow> Inr v))"

subsection \<open>Features, mapping and retrieval\<close>

text \<open>\<^verbatim>\<open>ee.Feature(None, properties)\<close>: a feature without geometry that keeps the
  dictionary it is given, a null value included.\<close>

record feature =
  feature_properties :: "(string \<times> jvalue) list"

fun ee_Feature :: "(string \<times> jvalue computed) list \<Rightarrow> feature computed" where
  "ee_Feature [] = Inr \<lparr>feature_properties = []\<rparr>"
| "ee_Feature ((k, v) # rest) =
     (case v of
        Inl msg \<Rightarrow> Inl msg
      | Inr x \<Rightarrow>
          (case ee_Feature rest of
             Inl msg \<Rightarrow> Inl msg
           | Inr f \<Rightarrow> Inr \<lparr>feature_properties = (k, x) # feature_properties f\<rparr>))"

fun all_computed :: "'a computed list \<Rightarrow> 'a list computed" where
  "all_computed [] = Inr []"
| "all_computed (c # cs) =
     (case c of
        Inl msg \<Rightarrow> Inl msg
      | Inr x \<Rightarrow> (case all_computed cs of Inl msg \<Rightarrow> Inl msg | Inr xs \<Rightarrow> Inr (x # xs)))"

text \<open>
  \<^verbatim>\<open>collection.map(f)\<close>: the client calls the Python function \<open>f\<close> once, on a
  variable that stands for an image, so an exception of \<open>f\<close> leaves \<^verbatim>\<open>map\<close>; the
  service then applies what \<open>f\<close> built to every image of the collection, in order.
\<close>

definition ee_map :: "(image \<Rightarrow> error + 'a computed) \<Rightarrow> collection \<Rightarrow> error + 'a list computed" where
  "ee_map f coll =
     (case f (Inl ''_MAPPING_VAR_0_0'') of
        Inl e \<Rightarrow> Inl e
      | Inr _ \<Rightarrow>
          Inr (case coll of
                 Inl msg \<Rightarrow> Inl msg
               | Inr imgs \<Rightarrow>
                   all_computed
                     (map (\<lambda>d. case f (Inr d) of
                                  Inl e \<Rightarrow> Inl ''Collection.map: the mapped function failed.''
                                | Inr c \<Rightarrow> c) imgs)))"

text \<open>\<^verbatim>\<open>getInfo()\<close>: the one blocking request; a computation the service rejects
  raises here.\<close>

definition getInfo :: "backend \<Rightarrow> 'a computed \<Rightarrow> error + 'a" where
  "getInfo s c =
     (if \<not> initialized s
      then Inl (EEException ''Earth Engine client library not initialized.'')
      else (case c of Inl msg \<Rightarrow> Inl (EEException msg) | Inr v \<Rightarrow> Inr v))"


section \<open>Python and pandas\<close>

definition py_bind :: "error + 'a \<Rightarrow> ('a \<Rightarrow> error + 'b) \<Rightarrow> error + 'b" where
  "py_bind r f = (case r of Inl e \<Rightarrow> Inl e | Inr x \<Rightarrow> f x)"

text \<open>A list comprehension whose body may raise.\<close>

fun map_py :: "('a \<Rightarrow> error + 'b) \<Rightarrow> 'a list \<Rightarrow> error + 'b list" where
  "map_py f [] = Inr []"
| "map_py f (x # xs) =
     (case f x of
        Inl e \<Rightarrow> Inl e
      | Inr y \<Rightarrow> (case map_py f xs of Inl e \<Rightarrow> Inl e | Inr ys \<Rightarrow> Inr (y # ys)))"

text \<open>\<^verbatim>\<open>d[key]\<close> on a dictionary.\<close>

definition py_getitem :: "(string \<times> 'v) list \<Rightarrow> string \<Rightarrow> error + 'v" where
  "py_getitem d key = (case map_of d key of None \<Rightarrow> Inl (KeyError key) | Some v \<Rightarrow> Inr v)"

text \<open>
  \<^verbatim>\<open>pd.to_datetime(values)\<close>: a text \<^verbatim>\<open>YYYY-MM-DD\<close> becomes the timestamp of its
  midnight, counted in nanoseconds since 1970-01-01; a number is taken as nanoseconds;
  null becomes \<^verbatim>\<open>NaT\<close>; any other text raises.
\<close>

datatype timestamp = Timestamp int | NaT

definition to_datetime1 :: "jvalue \<Rightarrow> error + timestamp" where
  "to_datetime1 v =
     (case v of
        JNull \<Rightarrow> Inr NaT
      | JNum t \<Rightarrow> Inr (Timestamp \<lfloor>t\<rfloor>)
      | JStr s \<Rightarrow>
          (case date_millis s of
             None \<Rightarrow> Inl (ValueError (''time data '' @ s @ '' does not match format''))
           | Some ms \<Rightarrow> Inr (Timestamp (ms * 1000000))))"

definition pd_to_datetime :: "jvalue list \<Rightarrow> error + timestamp list" where
  "pd_to_datetime vs = map_py to_datetime1 vs"

text \<open>
  The table that \<^verbatim>\<open>pd.DataFrame({'Date': ..., 'EVI': ...}).set_index('Date')\<close>
  builds: the index \<open>Date\<close> and the column \<open>EVI\<close>, row by row in the order of the
  two lists. pandas raises when the lists differ in length.
\<close>

record time_series =
  Date :: "timestamp list"
  EVI :: "jvalue list"

definition pd_DataFrame_set_index :: "timestamp list \<Rightarrow> jvalue list \<Rightarrow> error + time_series" where
  "pd_DataFrame_set_index dates values =
     (if length dates = length values
      then Inr \<lparr>Date = dates, EVI = values\<rparr>
      else Inl (ValueError ''All arrays must be of the same length''))"

definition rows :: "time_series \<Rightarrow> (timestamp \<times> jvalue) list" where
  "rows ts = zip (Date ts) (EVI ts)"

section \<open>Band Selector\<close>




definition band_mapping :: "string \<rightharpoonup> string" where
  "band_mapping =
     [''RED'' \<mapsto> ''B4'', ''GREEN'' \<mapsto> ''B3'', ''BLUE'' \<mapsto> ''B2'', ''NIR'' \<mapsto> ''B8'']"

definition select_bands :: "image \<Rightarrow> string \<Rightarrow> error + image" where
  "select_bands img index_name =
     (if index_name \<in> dom band_mapping
      then Inr (ee_select img (the (band_mapping index_name)))
      else Inl (ValueError ''Unsupported index! Available: RED, GREEN, BLUE, NIR''))"


section \<open>Index Calculator\<close>

text \<open>The text of line 114:
  \<^verbatim>\<open>2.5 * ((NIR - RED) / (NIR + 6 * RED - 7.5 * BLUE + 1))\<close>.\<close>

definition EVI_expression :: expr where
  "EVI_expression =
     Mul (Num 2.5)
         (Div (Sub (Var ''NIR'') (Var ''RED''))
              (Add (Sub (Add (Var ''NIR'') (Mul (Num 6) (Var ''RED'')))
                        (Mul (Num 7.5) (Var ''BLUE'')))
                   (Num 1)))"

definition calculateEVI :: "image \<Rightarrow> image \<Rightarrow> image \<Rightarrow> image \<Rightarrow> image" where
  "calculateEVI img blue red nir =
     (let evi = ee_expression img EVI_expression
                  [(''NIR'', nir), (''RED'', red), (''BLUE'', blue)]
      in ee_rename evi ''EVI'')"

section \<open>Collection Aggregator\<close>

definition aggregate_image_collection ::
    "backend \<Rightarrow> string \<Rightarrow> string \<Rightarrow> string \<Rightarrow> string \<Rightarrow> (error + image) \<times> backend" where
  "aggregate_image_collection s collection_name start_date end_date aggregation_method =
     (let s1 = ee_Initialize s;
          collection = ee_filterDate (ee_ImageCollection s1 collection_name) start_date end_date
      in (if aggregation_method = ''mean'' then Inr (ee_reduce Mean collection)
          else if aggregation_method = ''median'' then Inr (ee_reduce Median collection)
          else if aggregation_method = ''sum'' then Inr (ee_reduce Sum collection)
          else if aggregation_method = ''min'' then Inr (ee_reduce Min collection)
          else if aggregation_method = ''max'' then Inr (ee_reduce Max collection)
          else Inl (ValueError ''Wrong aggregation method! Available: mean, median, sum, min, max''),
          s1))"

section \<open>Time Series Extractor\<close>

definition calc_evi :: "image \<Rightarrow> error + image" where
  "calc_evi img =
     py_bind (select_bands img ''BLUE'') (\<lambda>blue_band.
     py_bind (select_bands img ''RED'') (\<lambda>red_band.
     py_bind (select_bands img ''NIR'') (\<lambda>nir_band.
       let evi = calculateEVI img blue_band red_band nir_band
       in Inr (ee_set evi ''system:time_start'' (ee_get img ''system:time_start'')))))"

definition reduce_region :: "geometry \<Rightarrow> image \<Rightarrow> error + feature computed" where
  "reduce_region aoi img =
     (let mean_value = ee_reduceRegion img Mean aoi 30
      in Inr (ee_Feature
                [(''date'', ee_Date_format (ee_Date (ee_get img ''system:time_start'')) ''YYYY-MM-dd''),
                 (''EVI'', ee_Dictionary_get mean_value ''EVI'')]))"

text \<open>Lines 167 to 175: the table built from the features that the service returned.\<close>

definition table_of_features :: "feature list \<Rightarrow> error + time_series" where
  "table_of_features features =
     py_bind (map_py (\<lambda>f. py_getitem (feature_properties f) ''date'') features) (\<lambda>dates.
     py_bind (map_py (\<lambda>f. py_getitem (feature_properties f) ''EVI'') features) (\<lambda>values.
     py_bind (pd_to_datetime dates) (\<lambda>index.
       pd_DataFrame_set_index index values)))"

definition calculate_time_series_EVI ::
    "backend \<Rightarrow> string \<Rightarrow> string \<Rightarrow> string \<Rightarrow> geometry \<Rightarrow> (error + time_series) \<times> backend" where
  "calculate_time_series_EVI s collection_name start_date end_date aoi =
     (let s1 = ee_Initialize s;
          collection = ee_filterBounds
                         (ee_filterDate (ee_ImageCollection s1 collection_name) start_date end_date)
                         aoi
      in (py_bind (ee_map calc_evi collection) (\<lambda>evi_collection.
          py_bind (ee_map (reduce_region aoi) evi_collection) (\<lambda>mapped.
          py_bind (getInfo s1 mapped) (\<lambda>features.
            table_of_features features))),
          s1))"

section \<open>What the extractor computes for one image\<close>

text \<open>
  Closed forms that the properties of \<open>calculate_time_series_EVI\<close> are stated
  with; each is compared with the operations above in a lemma below.

  An image is well formed when it has the bands B2, B4 and B8 and a capture time, a
  number, in the years 0000 to 9999. \<open>evi_pixel\<close> is the value of the expression of
  line 114 on one pixel, \<open>evi_of\<close> the raster of these values for an image,
  \<open>evi_image\<close> the image that \<open>calc_evi\<close> builds, \<open>region_mean\<close> the mean of that
  raster over a region (null where the region holds no value), \<open>image_date\<close> the
  timestamp that pandas gives the capture date, \<open>date_text\<close> the capture date as
  the service writes it, and \<open>feature_of\<close> the feature that \<open>reduce_region\<close>
  builds.
\<close>

definition well_formed :: "image_data \<Rightarrow> bool" where
  "well_formed d =
     (''B2'' \<in> set (band_names d) \<and> ''B4'' \<in> set (band_names d) \<and> ''B8'' \<in> set (band_names d)
      \<and> (case time_start d of
            None \<Rightarrow> False
          | Some t \<Rightarrow> 0 \<le> fst (civil_from_days (t div millis_per_day))
                      \<and> fst (civil_from_days (t div millis_per_day)) \<le> 9999))"

definition evi_pixel :: "real option \<Rightarrow> real option \<Rightarrow> real option \<Rightarrow> real option" where
  "evi_pixel blue red nir =
     (case (blue, red, nir) of
        (Some b, Some r, Some n) \<Rightarrow>
          if n + 6 * r - 7.5 * b + 1 = 0 then None
          else Some (2.5 * ((n - r) / (n + 6 * r - 7.5 * b + 1)))
      | _ \<Rightarrow> None)"

definition evi_of :: "image_data \<Rightarrow> raster" where
  "evi_of d p = evi_pixel (band_raster d ''B2'' p) (band_raster d ''B4'' p) (band_raster d ''B8'' p)"

definition evi_image :: "image_data \<Rightarrow> image_data" where
  "evi_image d =
     \<lparr>bands = [(''EVI'', evi_of d)],
      properties = [''system:time_start'' \<mapsto>
                      (case properties d ''system:time_start'' of None \<Rightarrow> JNull | Some v \<Rightarrow> v)],
      footprint = footprint d\<rparr>"

definition region_mean :: "geometry \<Rightarrow> image_data \<Rightarrow> jvalue" where
  "region_mean aoi d =
     (case reduce_values Mean (List.map_filter (evi_of d) aoi) of
        None \<Rightarrow> JNull
      | Some v \<Rightarrow> JNum v)"

definition image_date :: "image_data \<Rightarrow> timestamp" where
  "image_date d =
     (case time_start d of
        None \<Rightarrow> NaT
      | Some t \<Rightarrow>
          (case civil_from_days (t div millis_per_day) of
             (y, m, dd) \<Rightarrow> Timestamp (days_from_civil y m dd * millis_per_day * 1000000)))"

definition date_text :: "image_data \<Rightarrow> string" where
  "date_text d =
     (case time_start d of
        None \<Rightarrow> []
      | Some t \<Rightarrow>
          (case civil_from_days (t div millis_per_day) of
             (y, m, dd) \<Rightarrow> pad4 y @ ''-'' @ pad2 m @ ''-'' @ pad2 dd))"

definition feature_of :: "geometry \<Rightarrow> image_data \<Rightarrow> feature" where
  "feature_of aoi d =
     \<lparr>feature_properties = [(''date'', JStr (date_text d)), (''EVI'', region_mean aoi d)]\<rparr>"

text \<open>The collection of line 143, filtered by date and by region.\<close>

definition filtered_collection ::
    "backend \<Rightarrow> string \<Rightarrow> string \<Rightarrow> string \<Rightarrow> geometry \<Rightarrow> collection" where
  "filtered_collection s collection_name start_date end_date aoi =
     ee_filterBounds (ee_filterDate (ee_ImageCollection s collection_name) start_date end_date) aoi"

text \<open>The order of timestamps; \<^verbatim>\<open>NaT\<close> compares with nothing.\<close>

fun date_le :: "timestamp \<Rightarrow> timestamp \<Rightarrow> bool" where
  "date_le (Timestamp a) (Timestamp b) = (a \<le> b)"
| "date_le _ _ = False"

section \<open>Example data\<close>

text \<open>
  A catalogue with one collection of three images on a grid of two pixels. Each
  image has values on the pixel \<open>(0, 0)\<close> only and covers both pixels. The capture
  times are 2023-06-02, 2023-06-01 and 2023-06-03, in this order.
\<close>

definition example_image :: "real \<Rightarrow> real \<Rightarrow> real \<Rightarrow> real \<Rightarrow> image_data" where
  "example_image t b r n =
     \<lparr>bands = [(''B2'', [(0, 0) \<mapsto> b]), (''B4'', [(0, 0) \<mapsto> r]), (''B8'', [(0, 0) \<mapsto> n])],
      properties = [''system:time_start'' \<mapsto> JNum t],
      footprint = [(0, 0), (1, 0)]\<rparr>"

definition example_backend :: backend where
  "example_backend =
     \<lparr>initialized = False,
      catalog = [''TEST/S2'' \<mapsto> [example_image 1685664000000 0.05 0.1 0.5,
                                  example_image 1685577600000 0.04 0.08 0.4,
                                  example_image 1685750400000 0.04 0.08 0.4]]\<rparr>"

text \<open>A catalogue whose two images were both captured on 2023-06-01, at midnight
  and at noon.\<close>

definition same_day_backend :: backend where
  "same_day_backend =
     \<lparr>initialized = False,
      catalog = [''TEST/S2'' \<mapsto> [example_image 1685577600000 0.05 0.1 0.5,
                                  example_image 1685620800000 0.04 0.08 0.4]]\<rparr>"

section \<open>Properties of the Band Selector\<close>

lemma dom_band_mapping:
  "dom band_mapping = {''RED'', ''GREEN'', ''BLUE'', ''NIR''}"
  by (auto simp: band_mapping_def split: if_splits)

text \<open>
  Claim C3. For every logical band name outside RED, GREEN, BLUE, NIR (for example
  PURPLE), \<open>select_bands\<close> fails and returns no image. The failure is the
  \<^verbatim>\<open>ValueError\<close> of line 55, which is what the specification calls the
  unsupported-index error; its message lists the valid names RED, GREEN, BLUE, NIR.
\<close>

theorem select_bands_unsupported:
  assumes "index_name \<notin> {''RED'', ''GREEN'', ''BLUE'', ''NIR''}"
  shows "select_bands img index_name =
           Inl (ValueError (''Unsupported index! Available: '' @
                            ''RED'' @ '', '' @ ''GREEN'' @ '', '' @ ''BLUE'' @ '', '' @ ''NIR''))
         \<and> (\<forall>r. select_bands img index_name \<noteq> Inr r)"
  using assms by (simp add: select_bands_def dom_band_mapping)

theorem select_bands_unsupported_witness:
  "''PURPLE'' \<notin> {''RED'', ''GREEN'', ''BLUE'', ''NIR''}
   \<and> select_bands (Inr \<lparr>bands = [], properties = Map.empty, footprint = []\<rparr>) ''PURPLE'' =
       Inl (ValueError ''Unsupported index! Available: RED, GREEN, BLUE, NIR'')"
proof -
  have h: "''PURPLE'' \<notin> {''RED'', ''GREEN'', ''BLUE'', ''NIR''}" by simp
  show ?thesis
    using h select_bands_unsupported [OF h, of "Inr \<lparr>bands = [], properties = Map.empty, footprint = []\<rparr>"]
    by simp
qed


lemma filter_fst_single:
  "distinct (map fst xs) \<Longrightarrow> (b, r) \<in> set xs \<Longrightarrow> filter (\<lambda>nb. fst nb = b) xs = [(b, r)]"
proof (induction xs)
  case Nil
  then show ?case by simp
next
  case (Cons x xs)
  show ?case
  proof (cases "x = (b, r)")
    case True
    with Cons.prems have "b \<notin> fst ` set xs" by auto
    then have "filter (\<lambda>nb. fst nb = b) xs = []"
      by (auto simp: filter_empty_conv)
    with True show ?thesis by simp
  next
    case False
    with Cons.prems have in_xs: "(b, r) \<in> set xs" by auto
    then have "b \<in> fst ` set xs" by force
    with Cons.prems have "fst x \<noteq> b" by auto
    with Cons in_xs show ?thesis by simp
  qed
qed

lemma ee_select_single:
  "distinct (band_names d) \<Longrightarrow> (b, r) \<in> set (bands d) \<Longrightarrow>
   ee_select (Inr d) b = Inr (d\<lparr>bands := [(b, r)]\<rparr>)"
  by (force simp: ee_select_def band_names_def filter_fst_single)

text \<open>
  Claim C6. For every logical band name among RED, GREEN, BLUE, NIR, \<open>select_bands\<close>
  returns the result of the one selection \<open>ee_select\<close> on the physical band of the
  fixed mapping RED to B4, GREEN to B3, BLUE to B2, NIR to B8. On an image whose band
  names are distinct and which has that band, the result is the image with exactly
  that band and nothing else changed. The input is a value: the result is a new
  image and the input stays as it was.
\<close>

theorem select_bands_supported:
  assumes "(index_name, b) \<in>
             {(''RED'', ''B4''), (''GREEN'', ''B3''), (''BLUE'', ''B2''), (''NIR'', ''B8'')}"
  shows "select_bands img index_name = Inr (ee_select img b)
         \<and> (\<forall>d r. img = Inr d \<and> distinct (band_names d) \<and> (b, r) \<in> set (bands d)
               \<longrightarrow> select_bands img index_name = Inr (Inr (d\<lparr>bands := [(b, r)]\<rparr>)))"
proof -
  have sel: "select_bands img index_name = Inr (ee_select img b)"
    using assms by (auto simp: select_bands_def band_mapping_def)
  then show ?thesis by (auto simp: ee_select_single)
qed

theorem select_bands_supported_witness:
  "(''RED'', ''B4'') \<in> {(''RED'', ''B4''), (''GREEN'', ''B3''), (''BLUE'', ''B2''), (''NIR'', ''B8'')}
   \<and> select_bands (Inr \<lparr>bands = [(''B2'', [(0, 0) \<mapsto> 0.05]), (''B4'', [(0, 0) \<mapsto> 0.1])],
                         properties = Map.empty, footprint = [(0, 0)]\<rparr>) ''RED''
     = Inr (Inr \<lparr>bands = [(''B4'', [(0, 0) \<mapsto> 0.1])], properties = Map.empty,
                 footprint = [(0, 0)]\<rparr>)"
proof -
  let ?d = "\<lparr>bands = [(''B2'', [(0, 0) \<mapsto> 0.05]), (''B4'', [(0::int, 0::int) \<mapsto> (0.1::real)])],
             properties = Map.empty, footprint = [(0, 0)]\<rparr>"
  have h: "(''RED'', ''B4'') \<in>
             {(''RED'', ''B4''), (''GREEN'', ''B3''), (''BLUE'', ''B2''), (''NIR'', ''B8'')}"
    by simp
  have d: "distinct (band_names ?d)" by (simp add: band_names_def)
  have m: "(''B4'', [(0::int, 0::int) \<mapsto> (0.1::real)]) \<in> set (bands ?d)" by simp
  from select_bands_supported [OF h, of "Inr ?d"] d m
  have "select_bands (Inr ?d) ''RED'' = Inr (Inr (?d\<lparr>bands := [(''B4'', [(0, 0) \<mapsto> 0.1])]\<rparr>))"
    by blast
  with h show ?thesis by simp
qed

text \<open>
  Claim C10. The match of the band name is exact and sensitive to case: a name that
  is not one of the four upper-case texts, the lower-case \<open>red\<close> for one, makes
  \<open>select_bands\<close> fail, and with the same error whatever the image is, a handle the
  service would reject included: the failure is decided before any operation on the
  image.
\<close>

theorem select_bands_failure_ignores_image:
  assumes "index_name \<notin> {''RED'', ''GREEN'', ''BLUE'', ''NIR''}"
  shows "\<exists>e. \<forall>img. select_bands img index_name = Inl e"
  using assms by (simp add: select_bands_def dom_band_mapping)

theorem select_bands_failure_ignores_image_witness:
  "''red'' \<notin> {''RED'', ''GREEN'', ''BLUE'', ''NIR''}
   \<and> (\<exists>e. \<forall>img. select_bands img ''red'' = Inl e)"
proof -
  have h: "''red'' \<notin> {''RED'', ''GREEN'', ''BLUE'', ''NIR''}" by simp
  show ?thesis using h select_bands_failure_ignores_image [OF h] by simp
qed

section \<open>Properties of the Collection Aggregator\<close>

text \<open>
  Claim C4. For every method name outside mean, median, sum, min, max (for example
  average), \<open>aggregate_image_collection\<close> fails and returns no image. The failure is
  the \<^verbatim>\<open>ValueError\<close> of line 92, which is what the specification calls the
  unsupported-aggregation error; its message names the valid set. The session has
  been initialised by then.
\<close>

theorem aggregate_unsupported:
  assumes "aggregation_method \<notin> {''mean'', ''median'', ''sum'', ''min'', ''max''}"
  shows "aggregate_image_collection s collection_name start_date end_date aggregation_method =
           (Inl (ValueError (''Wrong aggregation method! Available: '' @
                             ''mean'' @ '', '' @ ''median'' @ '', '' @ ''sum'' @ '', '' @
                             ''min'' @ '', '' @ ''max'')),
            ee_Initialize s)
         \<and> (\<forall>r. fst (aggregate_image_collection s collection_name start_date end_date
                         aggregation_method) \<noteq> Inr r)"
  using assms by (simp add: aggregate_image_collection_def Let_def)

theorem aggregate_unsupported_witness:
  "''average'' \<notin> {''mean'', ''median'', ''sum'', ''min'', ''max''}
   \<and> fst (aggregate_image_collection \<lparr>initialized = False, catalog = Map.empty\<rparr>
            ''TEST/S2'' ''2023-06-01'' ''2023-06-03'' ''average'') =
       Inl (ValueError ''Wrong aggregation method! Available: mean, median, sum, min, max'')"
proof -
  have h: "''average'' \<notin> {''mean'', ''median'', ''sum'', ''min'', ''max''}" by simp
  show ?thesis
    using h aggregate_unsupported [OF h, of "\<lparr>initialized = False, catalog = Map.empty\<rparr>"
                                     "''TEST/S2''" "''2023-06-01''" "''2023-06-03''"]
    by simp
qed

lemma ee_filterDate_range:
  assumes "catalog s collection_name = Some imgs"
      and "date_millis start_date = Some t0" and "date_millis end_date = Some t1"
  shows "ee_filterDate (ee_ImageCollection s collection_name) start_date end_date =
           Inr (filter (\<lambda>d. \<exists>t. time_start d = Some t \<and> t0 \<le> t \<and> t < t1) imgs)"
proof -
  have "in_date_range t0 t1 = (\<lambda>d. \<exists>t. time_start d = Some t \<and> t0 \<le> t \<and> t < t1)"
    by (auto simp: in_date_range_def fun_eq_iff split: option.splits)
  with assms show ?thesis
    by (simp add: ee_filterDate_def ee_ImageCollection_def)
qed


lemma date_millis_2023_06_01: "date_millis ''2023-06-01'' = Some 1685577600000"
  by (simp add: date_millis_def digit_val_def days_from_civil_def millis_per_day_def)

lemma date_millis_2023_06_03: "date_millis ''2023-06-03'' = Some 1685750400000"
  by (simp add: date_millis_def digit_val_def days_from_civil_def millis_per_day_def)

text \<open>
  Claim C7. For every method name among mean, median, sum, min, max,
  \<open>aggregate_image_collection\<close> returns the reduction of that name, applied to the
  named collection filtered by \<open>ee_filterDate\<close>; where the collection exists and the
  two dates read as dates, the filtered collection holds exactly the images whose
  capture time is at or after the start and before the end.
\<close>

theorem aggregate_supported:
  assumes "(aggregation_method, r) \<in>
             {(''mean'', Mean), (''median'', Median), (''sum'', Sum), (''min'', Min), (''max'', Max)}"
  shows "aggregate_image_collection s collection_name start_date end_date aggregation_method =
           (Inr (ee_reduce r (ee_filterDate (ee_ImageCollection (ee_Initialize s) collection_name)
                                            start_date end_date)),
            ee_Initialize s)
         \<and> (\<forall>imgs t0 t1. catalog s collection_name = Some imgs
                \<and> date_millis start_date = Some t0 \<and> date_millis end_date = Some t1
              \<longrightarrow> fst (aggregate_image_collection s collection_name start_date end_date
                         aggregation_method) =
                    Inr (ee_reduce r
                           (Inr (filter (\<lambda>d. \<exists>t. time_start d = Some t \<and> t0 \<le> t \<and> t < t1) imgs))))"
proof -
  have eq: "aggregate_image_collection s collection_name start_date end_date aggregation_method =
           (Inr (ee_reduce r (ee_filterDate (ee_ImageCollection (ee_Initialize s) collection_name)
                                            start_date end_date)),
            ee_Initialize s)"
    using assms by (auto simp: aggregate_image_collection_def Let_def)
  have cat: "catalog (ee_Initialize s) = catalog s"
    by (simp add: ee_Initialize_def)
  show ?thesis
    using eq ee_filterDate_range [of "ee_Initialize s" collection_name _ start_date _ end_date]
    by (simp add: cat)
qed

theorem aggregate_supported_witness:
  "(''max'', Max) \<in>
      {(''mean'', Mean), (''median'', Median), (''sum'', Sum), (''min'', Min), (''max'', Max)}
   \<and> fst (aggregate_image_collection example_backend ''TEST/S2'' ''2023-06-01'' ''2023-06-03'' ''max'') =
       Inr (ee_reduce Max (Inr [example_image 1685664000000 0.05 0.1 0.5,
                                example_image 1685577600000 0.04 0.08 0.4]))"
proof -
  have h: "(''max'', Max) \<in>
      {(''mean'', Mean), (''median'', Median), (''sum'', Sum), (''min'', Min), (''max'', Max)}"
    by simp
  have c: "catalog example_backend ''TEST/S2'' =
             Some [example_image 1685664000000 0.05 0.1 0.5,
                   example_image 1685577600000 0.04 0.08 0.4,
                   example_image 1685750400000 0.04 0.08 0.4]"
    by (simp add: example_backend_def)
  from aggregate_supported [OF h, of example_backend "''TEST/S2''" "''2023-06-01''" "''2023-06-03''"]
       c date_millis_2023_06_01 date_millis_2023_06_03
  have "fst (aggregate_image_collection example_backend ''TEST/S2'' ''2023-06-01'' ''2023-06-03'' ''max'') =
          Inr (ee_reduce Max
                 (Inr (filter (\<lambda>d. \<exists>t. time_start d = Some t \<and> 1685577600000 \<le> t \<and> t < 1685750400000)
                         [example_image 1685664000000 0.05 0.1 0.5,
                          example_image 1685577600000 0.04 0.08 0.4,
                          example_image 1685750400000 0.04 0.08 0.4])))"
    by blast
  then show ?thesis using h
    by (simp add: time_start_def example_image_def)
qed

section \<open>Properties of the Index Calculator\<close>

text \<open>
  Claim C2. On an image and three operands whose first bands are \<open>B\<close>, \<open>R\<close> and \<open>N\<close>,
  under any names, \<open>calculateEVI\<close> yields an image whose single band is named
  \<open>EVI\<close>, and on every pixel where the three operands have the values \<open>b\<close>, \<open>r\<close>,
  \<open>n\<close> and the denominator \<open>n + 6 r - 7.5 b + 1\<close> is not zero the band has the value
  \<open>2.5 (n - r) / (n + 6 r - 7.5 b + 1)\<close>. Pixel values are exact real numbers.
\<close>

theorem calculateEVI_formula:
  assumes "img = Inr d"
      and "first_band blue = Inr (blue_name, B)"
      and "first_band red = Inr (red_name, R)"
      and "first_band nir = Inr (nir_name, N)"
  shows "\<exists>evi. calculateEVI img blue red nir =
                 Inr \<lparr>bands = [(''EVI'', evi)], properties = Map.empty, footprint = footprint d\<rparr>
             \<and> (\<forall>p b r n. B p = Some b \<and> R p = Some r \<and> N p = Some n
                           \<and> n + 6 * r - 7.5 * b + 1 \<noteq> 0
                  \<longrightarrow> evi p = Some (2.5 * (n - r) / (n + 6 * r - 7.5 * b + 1)))"
proof -
  let ?env = "[(''NIR'', (nir_name, N)), (''RED'', (red_name, R)), (''BLUE'', (blue_name, B))]"
  let ?evi = "\<lambda>p. eval_expr (pixel_env (map_of ?env) p) EVI_expression"
  have ops: "operands [(''NIR'', nir), (''RED'', red), (''BLUE'', blue)] = Inr ?env"
    using assms by simp
  have "calculateEVI img blue red nir =
          Inr \<lparr>bands = [(''EVI'', ?evi)], properties = Map.empty, footprint = footprint d\<rparr>"
    using assms(1) ops
    by (simp add: calculateEVI_def ee_expression_def ee_rename_def EVI_expression_def)
  moreover have "?evi p = Some (2.5 * (n - r) / (n + 6 * r - 7.5 * b + 1))"
    if "B p = Some b" "R p = Some r" "N p = Some n" "n + 6 * r - 7.5 * b + 1 \<noteq> 0" for p b r n
    using that by (simp add: EVI_expression_def pixel_env_def)
  ultimately show ?thesis by blast
qed

theorem calculateEVI_formula_witness:
  "\<exists>evi. calculateEVI (Inr (example_image 1685577600000 0.05 0.1 0.5))
             (Inr \<lparr>bands = [(''B2'', [(0, 0) \<mapsto> 0.05])], properties = Map.empty, footprint = []\<rparr>)
             (Inr \<lparr>bands = [(''B4'', [(0, 0) \<mapsto> 0.1])], properties = Map.empty, footprint = []\<rparr>)
             (Inr \<lparr>bands = [(''B8'', [(0, 0) \<mapsto> 0.5])], properties = Map.empty, footprint = []\<rparr>) =
           Inr \<lparr>bands = [(''EVI'', evi)], properties = Map.empty, footprint = [(0, 0), (1, 0)]\<rparr>
         \<and> evi (0, 0) = Some (40 / 69)"
proof -
  let ?blue = "Inr \<lparr>bands = [(''B2'', [(0::int, 0::int) \<mapsto> (0.05::real)])], properties = Map.empty, footprint = []\<rparr>"
  let ?red = "Inr \<lparr>bands = [(''B4'', [(0::int, 0::int) \<mapsto> (0.1::real)])], properties = Map.empty, footprint = []\<rparr>"
  let ?nir = "Inr \<lparr>bands = [(''B8'', [(0::int, 0::int) \<mapsto> (0.5::real)])], properties = Map.empty, footprint = []\<rparr>"
  have b: "first_band ?blue = Inr (''B2'', [(0, 0) \<mapsto> 0.05])"
    and r: "first_band ?red = Inr (''B4'', [(0, 0) \<mapsto> 0.1])"
    and n: "first_band ?nir = Inr (''B8'', [(0, 0) \<mapsto> 0.5])"
    by (simp_all add: first_band_def)
  from calculateEVI_formula [OF refl b r n, of "example_image 1685577600000 0.05 0.1 0.5"]
  obtain evi where
    res: "calculateEVI (Inr (example_image 1685577600000 0.05 0.1 0.5)) ?blue ?red ?nir =
            Inr \<lparr>bands = [(''EVI'', evi)], properties = Map.empty,
                 footprint = footprint (example_image 1685577600000 0.05 0.1 0.5)\<rparr>"
    and px: "\<forall>p b r n. [(0::int, 0::int) \<mapsto> (0.05::real)] p = Some b
                 \<and> [(0::int, 0::int) \<mapsto> (0.1::real)] p = Some r
                 \<and> [(0::int, 0::int) \<mapsto> (0.5::real)] p = Some n
                 \<and> n + 6 * r - 7.5 * b + 1 \<noteq> 0
               \<longrightarrow> evi p = Some (2.5 * (n - r) / (n + 6 * r - 7.5 * b + 1))"
    by blast
  from px [rule_format, of "(0, 0)" "0.05" "0.1" "0.5"]
  have "evi (0, 0) = Some (40 / 69)" by simp
  with res show ?thesis by (auto simp: example_image_def)
qed

section \<open>Properties of the Time Series Extractor\<close>






subsection \<open>One image\<close>

lemma filter_fst_head:
  "b \<in> fst ` set xs \<Longrightarrow>
   \<exists>rest. filter (\<lambda>nb. fst nb = b) xs = (b, the (map_of xs b)) # rest"
proof (induction xs)
  case Nil
  then show ?case by simp
next
  case (Cons x xs)
  obtain n r where x: "x = (n, r)" by (cases x)
  show ?case
  proof (cases "n = b")
    case True
    with x show ?thesis by simp
  next
    case False
    with Cons.prems x have "b \<in> fst ` set xs" by auto
    from Cons.IH [OF this] False x show ?thesis by simp
  qed
qed


lemma first_band_select:
  assumes "b \<in> set (band_names d)"
  shows "first_band (ee_select (Inr d) b) = Inr (b, band_raster d b)"
proof -
  from assms have in_img: "b \<in> fst ` set (bands d)"
    by (simp add: band_names_def)
  from filter_fst_head [OF in_img]
  obtain rest where f: "filter (\<lambda>nb. fst nb = b) (bands d) = (b, the (map_of (bands d) b)) # rest"
    by (rule exE)
  from in_img have "map_of (bands d) b \<noteq> None"
    by (simp only: map_of_eq_None_iff not_not)
  then obtain r where r: "map_of (bands d) b = Some r"
    by (cases "map_of (bands d) b") simp_all
  have f': "filter (\<lambda>nb. fst nb = b) (bands d) = (b, r) # rest"
    using f by (simp only: r option.sel)
  have sel: "ee_select (Inr d) b = Inr (d\<lparr>bands := (b, r) # rest\<rparr>)"
    unfolding ee_select_def by (simp only: sum.case assms if_True f')
  have fb: "first_band (Inr (d\<lparr>bands := (b, r) # rest\<rparr>)) = Inr (b, r)"
    by (simp add: first_band_def)
  have br: "band_raster d b = r"
    by (simp add: band_raster_def r)
  show ?thesis
    by (simp only: sel fb br)
qed

lemma eval_EVI_values:
  assumes "env ''BLUE'' = Some b" "env ''RED'' = Some r" "env ''NIR'' = Some n"
  shows "eval_expr env EVI_expression =
           (if n + 6 * r - 7.5 * b + 1 = 0 then None
            else Some (2.5 * ((n - r) / (n + 6 * r - 7.5 * b + 1))))"
proof (cases "n + 6 * r - 7.5 * b + 1 = 0")
  case True
  show ?thesis
    unfolding EVI_expression_def
    by (simp only: eval_expr.simps assms option.case prod.case if_P [OF True])
next
  case False
  show ?thesis
    unfolding EVI_expression_def
    by (simp only: eval_expr.simps assms option.case prod.case if_not_P [OF False])
qed

lemma eval_EVI_no_blue: "env ''BLUE'' = None \<Longrightarrow> eval_expr env EVI_expression = None"
  unfolding EVI_expression_def
  by (simp split: option.splits prod.splits)

lemma eval_EVI_no_red: "env ''RED'' = None \<Longrightarrow> eval_expr env EVI_expression = None"
  unfolding EVI_expression_def
  by (simp split: option.splits prod.splits)

lemma eval_EVI_no_nir: "env ''NIR'' = None \<Longrightarrow> eval_expr env EVI_expression = None"
  unfolding EVI_expression_def
  by (simp split: option.splits prod.splits)

lemma eval_EVI_expression:
  "eval_expr env EVI_expression = evi_pixel (env ''BLUE'') (env ''RED'') (env ''NIR'')"
proof (cases "env ''BLUE''")
  case None
  then show ?thesis
    by (simp add: eval_EVI_no_blue evi_pixel_def)
next
  case b: (Some b)
  show ?thesis
  proof (cases "env ''RED''")
    case None
    then show ?thesis
      by (simp add: eval_EVI_no_red evi_pixel_def b)
  next
    case r: (Some r)
    show ?thesis
    proof (cases "env ''NIR''")
      case None
      then show ?thesis
        by (simp add: eval_EVI_no_nir evi_pixel_def b r)
    next
      case n: (Some n)
      have "evi_pixel (Some b) (Some r) (Some n) =
              (if n + 6 * r - 7.5 * b + 1 = 0 then None
               else Some (2.5 * ((n - r) / (n + 6 * r - 7.5 * b + 1))))"
        unfolding evi_pixel_def by (simp only: prod.case option.case)
      with eval_EVI_values [OF b r n] show ?thesis
        by (simp only: b r n)
    qed
  qed
qed

lemma calculateEVI_bands:
  assumes "first_band blue = Inr (blue_name, B)"
      and "first_band red = Inr (red_name, R)"
      and "first_band nir = Inr (nir_name, N)"
  shows "calculateEVI (Inr d) blue red nir =
           Inr \<lparr>bands = [(''EVI'', \<lambda>p. evi_pixel (B p) (R p) (N p))],
                properties = Map.empty, footprint = footprint d\<rparr>"
proof -
  let ?env = "[(''NIR'', (nir_name, N)), (''RED'', (red_name, R)), (''BLUE'', (blue_name, B))]"
  have ops: "operands [(''NIR'', nir), (''RED'', red), (''BLUE'', blue)] = Inr ?env"
    using assms by simp
  have v: "set (vars EVI_expression) \<subseteq> fst ` set ?env"
    by (simp add: EVI_expression_def)
  have e: "(\<lambda>p. eval_expr (pixel_env (map_of ?env) p) EVI_expression) =
           (\<lambda>p. evi_pixel (B p) (R p) (N p))"
    by (simp add: eval_EVI_expression pixel_env_def)
  have ex: "ee_expression (Inr d) EVI_expression [(''NIR'', nir), (''RED'', red), (''BLUE'', blue)] =
          Inr \<lparr>bands = [(leftmost_name (map_of ?env) EVI_expression,
                          \<lambda>p. evi_pixel (B p) (R p) (N p))],
               properties = Map.empty, footprint = footprint d\<rparr>"
    unfolding ee_expression_def by (simp only: sum.case ops v if_True e)
  show ?thesis
    unfolding calculateEVI_def Let_def ex by (simp add: ee_rename_def)
qed

lemma select_bands_rejected:
  "select_bands (Inl msg) ''BLUE'' = Inr (Inl msg)"
  "select_bands (Inl msg) ''RED'' = Inr (Inl msg)"
  "select_bands (Inl msg) ''NIR'' = Inr (Inl msg)"
  by (simp_all add: select_bands_def band_mapping_def ee_select_def)

lemma calc_evi_rejected: "calc_evi (Inl msg) = Inr (Inl msg)"
proof -
  have "calculateEVI (Inl msg) (Inl msg) (Inl msg) (Inl msg) = Inl msg"
    by (simp add: calculateEVI_def ee_expression_def ee_rename_def)
  then show ?thesis
    by (simp add: calc_evi_def py_bind_def select_bands_rejected ee_set_def)
qed

lemma reduce_region_rejected: "\<exists>c. reduce_region aoi (Inl msg) = Inr c"
  by (simp add: reduce_region_def)

lemma calc_evi_image:
  assumes "''B2'' \<in> set (band_names d)" "''B4'' \<in> set (band_names d)" "''B8'' \<in> set (band_names d)"
  shows "calc_evi (Inr d) = Inr (Inr (evi_image d))"
proof -
  have b: "select_bands (Inr d) ''BLUE'' = Inr (ee_select (Inr d) ''B2'')"
    and r: "select_bands (Inr d) ''RED'' = Inr (ee_select (Inr d) ''B4'')"
    and n: "select_bands (Inr d) ''NIR'' = Inr (ee_select (Inr d) ''B8'')"
    by (simp_all add: select_bands_def band_mapping_def)
  have ev: "(\<lambda>p. evi_pixel (band_raster d ''B2'' p) (band_raster d ''B4'' p) (band_raster d ''B8'' p))
            = evi_of d"
    by (rule ext) (simp only: evi_of_def)
  have c: "calculateEVI (Inr d) (ee_select (Inr d) ''B2'') (ee_select (Inr d) ''B4'')
             (ee_select (Inr d) ''B8'') =
           Inr \<lparr>bands = [(''EVI'', evi_of d)], properties = Map.empty, footprint = footprint d\<rparr>"
    using calculateEVI_bands [OF first_band_select [OF assms(1)] first_band_select [OF assms(2)]
                                 first_band_select [OF assms(3)], of d]
    by (simp only: ev)
  have g: "ee_get (Inr d) ''system:time_start'' =
             Inr (case properties d ''system:time_start'' of None \<Rightarrow> JNull | Some v \<Rightarrow> v)"
    by (simp add: ee_get_def)
  have s: "ee_set (Inr \<lparr>bands = [(''EVI'', evi_of d)], properties = Map.empty, footprint = footprint d\<rparr>)
             ''system:time_start''
             (Inr (case properties d ''system:time_start'' of None \<Rightarrow> JNull | Some v \<Rightarrow> v)) =
           Inr (evi_image d)"
    by (simp add: ee_set_def evi_image_def)
  show ?thesis
    unfolding calc_evi_def
    by (simp only: b r n py_bind_def sum.case Let_def c g s)
qed

lemma reduce_region_evi_image:
  assumes "time_start d = Some t"
      and "civil_from_days (t div millis_per_day) = (y, m, dd)"
      and "0 \<le> y" "y \<le> 9999"
  shows "reduce_region aoi (Inr (evi_image d)) =
           Inr (Inr \<lparr>feature_properties =
                       [(''date'', JStr (pad4 y @ ''-'' @ pad2 m @ ''-'' @ pad2 dd)),
                        (''EVI'', region_mean aoi d)]\<rparr>)"
proof -
  from assms(1) obtain x where x: "properties d ''system:time_start'' = Some (JNum x)" and t: "t = \<lfloor>x\<rfloor>"
    by (auto simp: time_start_def split: option.splits jvalue.splits)
  have g: "ee_get (Inr (evi_image d)) ''system:time_start'' = Inr (JNum x)"
    by (simp add: ee_get_def evi_image_def x)
  have dt: "ee_Date (Inr (JNum x)) = Inr t"
    by (simp add: ee_Date_def t)
  have fm: "ee_Date_format (Inr t) ''YYYY-MM-dd'' =
              Inr (JStr (pad4 y @ ''-'' @ pad2 m @ ''-'' @ pad2 dd))"
    using assms(2-4) by (simp add: ee_Date_format_def)
  have rr: "ee_reduceRegion (Inr (evi_image d)) Mean aoi 30 = Inr [(''EVI'', region_mean aoi d)]"
    by (simp add: ee_reduceRegion_def evi_image_def region_mean_def)
  have dg: "ee_Dictionary_get (Inr [(''EVI'', region_mean aoi d)]) ''EVI'' = Inr (region_mean aoi d)"
    by (simp add: ee_Dictionary_get_def)
  show ?thesis
    unfolding reduce_region_def Let_def
    by (simp only: g dt fm rr dg ee_Feature.simps sum.case prod.case)
       (simp)
qed

lemma digit_val_digit_char: "0 \<le> k \<Longrightarrow> k \<le> 9 \<Longrightarrow> digit_val (digit_char k) = Some k"
proof -
  assume k: "0 \<le> k" "k \<le> 9"
  then have "(48 + nat k) mod 256 = 48 + nat k" by simp
  then have "(of_char (char_of (48 + nat k)) :: nat) = 48 + nat k" by simp
  with k show ?thesis by (simp add: digit_val_def digit_char_def Let_def)
qed

lemma four_digits:
  fixes y :: int
  shows "1000 * (y div 1000) + 100 * (y div 100 mod 10) + 10 * (y div 10 mod 10) + y mod 10 = y"
proof -
  have a: "y div 100 = (y div 10) div 10" and b: "y div 1000 = ((y div 10) div 10) div 10"
    by (simp_all add: div_mult2_eq)
  have 1: "y = 10 * (y div 10) + y mod 10" by simp
  have 2: "y div 10 = 10 * (y div 10 div 10) + y div 10 mod 10" by simp
  have 3: "y div 10 div 10 = 10 * (y div 10 div 10 div 10) + y div 10 div 10 mod 10" by simp
  show ?thesis unfolding a b using 1 2 3 by linarith
qed

lemma parse_date_pad:
  fixes y :: int
  assumes "0 \<le> y" "y \<le> 9999" "1 \<le> m" "m \<le> 12" "1 \<le> d" "d \<le> 31"
  shows "parse_date (pad4 y @ ''-'' @ pad2 m @ ''-'' @ pad2 d) = Some (y, m, d)"
proof -
  have y1000: "0 \<le> y div 1000" "y div 1000 \<le> 9" using assms(1,2) by linarith+
  have m10: "0 \<le> m div 10" "m div 10 \<le> 9" using assms(3,4) by linarith+
  have d10: "0 \<le> d div 10" "d div 10 \<le> 9" using assms(5,6) by linarith+
  have dv: "digit_val (digit_char (y div 1000)) = Some (y div 1000)"
      "digit_val (digit_char (y div 100 mod 10)) = Some (y div 100 mod 10)"
      "digit_val (digit_char (y div 10 mod 10)) = Some (y div 10 mod 10)"
      "digit_val (digit_char (y mod 10)) = Some (y mod 10)"
      "digit_val (digit_char (m div 10)) = Some (m div 10)"
      "digit_val (digit_char (m mod 10)) = Some (m mod 10)"
      "digit_val (digit_char (d div 10)) = Some (d div 10)"
      "digit_val (digit_char (d mod 10)) = Some (d mod 10)"
    using y1000 m10 d10 by (simp_all add: digit_val_digit_char)
  have m: "10 * (m div 10) + m mod 10 = m" and d: "10 * (d div 10) + d mod 10 = d"
    by simp_all
  have "parse_date (pad4 y @ ''-'' @ pad2 m @ ''-'' @ pad2 d) =
        (let y' = 1000 * (y div 1000) + 100 * (y div 100 mod 10) + 10 * (y div 10 mod 10) + y mod 10;
             m' = 10 * (m div 10) + m mod 10; d' = 10 * (d div 10) + d mod 10
         in if 1 \<le> m' \<and> m' \<le> 12 \<and> 1 \<le> d' \<and> d' \<le> 31 then Some (y', m', d') else None)"
    by (simp add: pad4_def pad2_def dv Let_def del: mult_div_mod_eq div_mult_mod_eq)
  then show ?thesis
    unfolding Let_def four_digits m d using assms by simp
qed

lemma century_bounds:
  fixes doe :: int
  assumes "0 \<le> doe" "doe < 146097"
  shows "0 \<le> doe - min 3 (doe div 36524) * 36524 \<and> doe - min 3 (doe div 36524) * 36524 \<le> 36524"
proof (cases "doe div 36524 \<le> 3")
  case True
  then have "min 3 (doe div 36524) = doe div 36524" by simp
  moreover have "doe - doe div 36524 * 36524 = doe mod 36524"
    by (simp add: minus_div_mult_eq_mod)
  ultimately show ?thesis by simp
next
  case False
  then have m: "min 3 (doe div 36524) = 3" by simp
  from False have "4 \<le> doe div 36524" by simp
  then have "4 * 36524 \<le> doe" by linarith
  with assms show ?thesis unfolding m by simp
qed

lemma four_years_bounds:
  fixes r1 :: int
  assumes "0 \<le> r1" "r1 \<le> 36524"
  shows "0 \<le> r1 - min 24 (r1 div 1461) * 1461 \<and> r1 - min 24 (r1 div 1461) * 1461 \<le> 1460"
proof -
  have "r1 div 1461 \<le> 24" using assms by linarith
  then have "min 24 (r1 div 1461) = r1 div 1461" by simp
  moreover have "r1 - r1 div 1461 * 1461 = r1 mod 1461"
    by (simp add: minus_div_mult_eq_mod)
  ultimately show ?thesis by simp
qed

lemma day_of_year_bounds:
  fixes r2 :: int
  assumes "0 \<le> r2" "r2 \<le> 1460"
  shows "0 \<le> r2 - min 3 (r2 div 365) * 365 \<and> r2 - min 3 (r2 div 365) * 365 \<le> 365"
proof (cases "r2 div 365 \<le> 3")
  case True
  then have "min 3 (r2 div 365) = r2 div 365" by simp
  moreover have "r2 - r2 div 365 * 365 = r2 mod 365"
    by (simp add: minus_div_mult_eq_mod)
  ultimately show ?thesis by simp
next
  case False
  then have m: "min 3 (r2 div 365) = 3" by simp
  from False have "4 \<le> r2 div 365" by simp
  then have "4 * 365 \<le> r2" by linarith
  with assms show ?thesis unfolding m by simp
qed

lemma month_day_bounds:
  fixes doy :: int
  assumes "0 \<le> doy" "doy \<le> 365"
  shows "0 \<le> (5 * doy + 2) div 153 \<and> (5 * doy + 2) div 153 \<le> 11
       \<and> 1 \<le> doy - (153 * ((5 * doy + 2) div 153) + 2) div 5 + 1
       \<and> doy - (153 * ((5 * doy + 2) div 153) + 2) div 5 + 1 \<le> 31"
  using assms by linarith

lemma civil_from_days_bounds:
  assumes "civil_from_days z = (y, m, d)"
  shows "1 \<le> m \<and> m \<le> 12 \<and> 1 \<le> d \<and> d \<le> 31"
proof -
  define doe where "doe = z + 719468 - (z + 719468) div 146097 * 146097"
  define r1 where "r1 = doe - min 3 (doe div 36524) * 36524"
  define r2 where "r2 = r1 - min 24 (r1 div 1461) * 1461"
  define doy where "doy = r2 - min 3 (r2 div 365) * 365"
  define mp where "mp = (5 * doy + 2) div 153"
  have "doe = (z + 719468) mod 146097"
    by (simp add: doe_def minus_div_mult_eq_mod)
  then have doe: "0 \<le> doe" "doe < 146097" by simp_all
  have r1: "0 \<le> r1" "r1 \<le> 36524"
    using century_bounds [OF doe] by (simp_all add: r1_def)
  have r2: "0 \<le> r2" "r2 \<le> 1460"
    using four_years_bounds [OF r1] by (simp_all add: r2_def)
  have doy: "0 \<le> doy" "doy \<le> 365"
    using day_of_year_bounds [OF r2] by (simp_all add: doy_def)
  have md: "0 \<le> mp" "mp \<le> 11" "1 \<le> doy - (153 * mp + 2) div 5 + 1"
      "doy - (153 * mp + 2) div 5 + 1 \<le> 31"
    using month_day_bounds [OF doy] by (simp_all add: mp_def)
  have c: "civil_from_days z =
             (let m' = (if mp < 10 then mp + 3 else mp - 9);
                  y' = (z + 719468) div 146097 * 400 + min 3 (doe div 36524) * 100
                         + min 24 (r1 div 1461) * 4 + min 3 (r2 div 365)
              in (if m' \<le> 2 then y' + 1 else y', m', doy - (153 * mp + 2) div 5 + 1))"
    unfolding civil_from_days_def Let_def mp_def doy_def r2_def r1_def doe_def
    by (rule refl)
  from assms have m: "m = (if mp < 10 then mp + 3 else mp - 9)"
    and d: "d = doy - (153 * mp + 2) div 5 + 1"
    unfolding c Let_def by simp_all
  show ?thesis
    unfolding m d using md by (simp split: if_splits)
qed

lemma all_computed_map_Inr: "all_computed (map (\<lambda>x. Inr (g x)) xs) = Inr (map g xs)"
  by (induction xs) simp_all

lemma all_computed_length: "all_computed cs = Inr xs \<Longrightarrow> length xs = length cs"
proof (induction cs arbitrary: xs)
  case Nil
  then show ?case by simp
next
  case (Cons c cs)
  then show ?case
    by (cases c; cases "all_computed cs") auto
qed

lemma map_py_map_Inr: "map_py (\<lambda>x. Inr (g x)) xs = Inr (map g xs)"
  by (induction xs) simp_all

lemma map_py_cong_Inr:
  "(\<And>x. x \<in> set xs \<Longrightarrow> f x = Inr (g x)) \<Longrightarrow> map_py f xs = Inr (map g xs)"
  by (induction xs) simp_all

lemma map_py_length: "map_py f xs = Inr ys \<Longrightarrow> length ys = length xs"
proof (induction xs arbitrary: ys)
  case Nil
  then show ?case by simp
next
  case (Cons x xs)
  then show ?case
    by (cases "f x"; cases "map_py f xs") auto
qed

lemma ee_map_images:
  assumes var: "f (Inl ''_MAPPING_VAR_0_0'') = Inr c0"
      and each: "\<And>d. d \<in> set imgs \<Longrightarrow> f (Inr d) = Inr (Inr (g d))"
  shows "ee_map f (Inr imgs) = Inr (Inr (map g imgs))"
proof -
  have "map (\<lambda>d. case f (Inr d) of
                    Inl e \<Rightarrow> Inl ''Collection.map: the mapped function failed.''
                  | Inr c \<Rightarrow> c) imgs = map (\<lambda>d. Inr (g d)) imgs"
    using each by (intro map_cong) simp_all
  then show ?thesis
    unfolding ee_map_def by (simp only: var sum.case all_computed_map_Inr)
qed

lemma ee_map_returns:
  assumes "ee_map f coll = Inr (Inr xs)"
  shows "\<exists>imgs. coll = Inr imgs \<and> length xs = length imgs"
proof (cases coll)
  case (Inl msg)
  with assms show ?thesis
    by (cases "f (Inl ''_MAPPING_VAR_0_0'')") (simp_all add: ee_map_def)
next
  case (Inr imgs)
  with assms have "all_computed (map (\<lambda>d. case f (Inr d) of
                    Inl e \<Rightarrow> Inl ''Collection.map: the mapped function failed.''
                  | Inr c \<Rightarrow> c) imgs) = Inr xs"
    by (cases "f (Inl ''_MAPPING_VAR_0_0'')") (simp_all add: ee_map_def)
  from all_computed_length [OF this] Inr show ?thesis by simp
qed

lemma to_datetime1_date_text:
  assumes "well_formed d"
  shows "to_datetime1 (JStr (date_text d)) = Inr (image_date d)"
proof -
  from assms obtain t where t: "time_start d = Some t"
    and y0: "0 \<le> fst (civil_from_days (t div millis_per_day))"
    and y1: "fst (civil_from_days (t div millis_per_day)) \<le> 9999"
    by (auto simp: well_formed_def split: option.splits)
  obtain y m dd where c: "civil_from_days (t div millis_per_day) = (y, m, dd)"
    by (cases "civil_from_days (t div millis_per_day)") auto
  from y0 y1 c have y: "0 \<le> y" "y \<le> 9999" by simp_all
  from civil_from_days_bounds [OF c]
  have md: "1 \<le> m" "m \<le> 12" "1 \<le> dd" "dd \<le> 31" by simp_all
  have dtext: "date_text d = pad4 y @ ''-'' @ pad2 m @ ''-'' @ pad2 dd"
    by (simp add: date_text_def t c)
  have img: "image_date d = Timestamp (days_from_civil y m dd * millis_per_day * 1000000)"
    by (simp add: image_date_def t c)
  have "date_millis (date_text d) = Some (days_from_civil y m dd * millis_per_day)"
    unfolding dtext date_millis_def
    by (simp only: parse_date_pad [OF y md] option.case prod.case)
  then show ?thesis
    unfolding img to_datetime1_def by (simp only: jvalue.case option.case)
qed

lemma image_feature:
  assumes "well_formed d"
  shows "calc_evi (Inr d) = Inr (Inr (evi_image d))"
    and "reduce_region aoi (Inr (evi_image d)) = Inr (Inr (feature_of aoi d))"
proof -
  from assms have b: "''B2'' \<in> set (band_names d)" "''B4'' \<in> set (band_names d)"
      "''B8'' \<in> set (band_names d)"
    by (simp_all add: well_formed_def)
  from calc_evi_image [OF b] show "calc_evi (Inr d) = Inr (Inr (evi_image d))" .
  from assms obtain t where t: "time_start d = Some t"
    and y0: "0 \<le> fst (civil_from_days (t div millis_per_day))"
    and y1: "fst (civil_from_days (t div millis_per_day)) \<le> 9999"
    by (auto simp: well_formed_def split: option.splits)
  obtain y m dd where c: "civil_from_days (t div millis_per_day) = (y, m, dd)"
    by (cases "civil_from_days (t div millis_per_day)") auto
  from y0 y1 c have y: "0 \<le> y" "y \<le> 9999" by simp_all
  have dtext: "date_text d = pad4 y @ ''-'' @ pad2 m @ ''-'' @ pad2 dd"
    by (simp add: date_text_def t c)
  from reduce_region_evi_image [OF t c y, of aoi]
  show "reduce_region aoi (Inr (evi_image d)) = Inr (Inr (feature_of aoi d))"
    by (simp only: feature_of_def dtext)
qed

lemma table_of_features_images:
  assumes "\<And>d. d \<in> set imgs \<Longrightarrow> well_formed d"
  shows "table_of_features (map (feature_of aoi) imgs) =
           Inr \<lparr>Date = map image_date imgs, EVI = map (region_mean aoi) imgs\<rparr>"
proof -
  have dates: "map_py (\<lambda>f. py_getitem (feature_properties f) ''date'') (map (feature_of aoi) imgs) =
                 Inr (map (\<lambda>d. JStr (date_text d)) imgs)"
    by (induction imgs) (simp_all add: py_getitem_def feature_of_def)
  have vals_eq: "map_py (\<lambda>f. py_getitem (feature_properties f) ''EVI'') (map (feature_of aoi) imgs) =
                 Inr (map (region_mean aoi) imgs)"
    by (induction imgs) (simp_all add: py_getitem_def feature_of_def)
  have index: "pd_to_datetime (map (\<lambda>d. JStr (date_text d)) imgs) = Inr (map image_date imgs)"
    using assms unfolding pd_to_datetime_def
    by (induction imgs) (simp_all add: to_datetime1_date_text)
  show ?thesis
    unfolding table_of_features_def
    by (simp only: dates vals_eq index py_bind_def sum.case)
       (simp add: pd_DataFrame_set_index_def)
qed

lemma table_of_features_length:
  assumes "table_of_features features = Inr ts"
  shows "length (Date ts) = length features \<and> length (EVI ts) = length features"
proof -
  from assms obtain dates vals idx where
    d: "map_py (\<lambda>f. py_getitem (feature_properties f) ''date'') features = Inr dates"
    and v: "map_py (\<lambda>f. py_getitem (feature_properties f) ''EVI'') features = Inr vals"
    and i: "pd_to_datetime dates = Inr idx"
    and t: "pd_DataFrame_set_index idx vals = Inr ts"
    by (auto simp: table_of_features_def py_bind_def split: sum.splits)
  from t have ts: "ts = \<lparr>Date = idx, EVI = vals\<rparr>"
    by (simp add: pd_DataFrame_set_index_def split: if_splits)
  from map_py_length [OF d] map_py_length [OF v] i
  show ?thesis
    unfolding ts pd_to_datetime_def by (auto dest: map_py_length)
qed

subsection \<open>The whole extraction\<close>

lemma ee_map_mapped:
  assumes var: "f (Inl ''_MAPPING_VAR_0_0'') = Inr c0"
      and each: "\<And>d. d \<in> set xs \<Longrightarrow> f (Inr (h d)) = Inr (Inr (g d))"
  shows "ee_map f (Inr (map h xs)) = Inr (Inr (map g xs))"
proof -
  have "map (\<lambda>d. case f (Inr d) of
                    Inl e \<Rightarrow> Inl ''Collection.map: the mapped function failed.''
                  | Inr c \<Rightarrow> c) (map h xs) = map (\<lambda>d. Inr (g d)) xs"
    using each by (induction xs) simp_all
  then show ?thesis
    unfolding ee_map_def by (simp only: var sum.case all_computed_map_Inr)
qed

lemma filtered_collection_Initialize:
  "ee_filterBounds (ee_filterDate (ee_ImageCollection (ee_Initialize s) collection_name)
                      start_date end_date) aoi =
   filtered_collection s collection_name start_date end_date aoi"
  by (simp add: filtered_collection_def ee_ImageCollection_def ee_Initialize_def)

lemma getInfo_Initialize: "getInfo (ee_Initialize s) c = (case c of Inl msg \<Rightarrow> Inl (EEException msg) | Inr v \<Rightarrow> Inr v)"
  by (simp add: getInfo_def ee_Initialize_def)


lemma extractor_result:
  assumes coll: "filtered_collection s collection_name start_date end_date aoi = Inr imgs"
      and wf: "\<And>d. d \<in> set imgs \<Longrightarrow> well_formed d"
  shows "fst (calculate_time_series_EVI s collection_name start_date end_date aoi) =
           Inr \<lparr>Date = map image_date imgs, EVI = map (region_mean aoi) imgs\<rparr>"
proof -
  have m1: "ee_map calc_evi (Inr imgs) = Inr (Inr (map evi_image imgs))"
    by (rule ee_map_images [where f = calc_evi and g = evi_image,
                              OF calc_evi_rejected [of "''_MAPPING_VAR_0_0''"]])
       (rule image_feature(1) [OF wf])
  obtain c0 where c0: "reduce_region aoi (Inl ''_MAPPING_VAR_0_0'') = Inr c0"
    using reduce_region_rejected by blast
  have m2: "ee_map (reduce_region aoi) (Inr (map evi_image imgs)) =
              Inr (Inr (map (feature_of aoi) imgs))"
    by (rule ee_map_mapped [where f = "reduce_region aoi" and h = evi_image
                              and g = "feature_of aoi", OF c0])
       (rule image_feature(2) [OF wf])
  have g: "getInfo (ee_Initialize s) (Inr (map (feature_of aoi) imgs)) =
             Inr (map (feature_of aoi) imgs)"
    by (simp add: getInfo_Initialize)
  show ?thesis
    unfolding calculate_time_series_EVI_def Let_def filtered_collection_Initialize coll
    by (simp only: fst_conv m1 m2 g py_bind_def sum.case table_of_features_images [OF wf])
qed

lemma extractor_returns:
  assumes "fst (calculate_time_series_EVI s collection_name start_date end_date aoi) = Inr ts"
  shows "\<exists>imgs. filtered_collection s collection_name start_date end_date aoi = Inr imgs
               \<and> length (Date ts) = length imgs \<and> length (EVI ts) = length imgs"
proof -
  let ?coll = "filtered_collection s collection_name start_date end_date aoi"
  from assms have run:
    "py_bind (ee_map calc_evi ?coll) (\<lambda>evi_collection.
       py_bind (ee_map (reduce_region aoi) evi_collection) (\<lambda>mapped.
       py_bind (getInfo (ee_Initialize s) mapped) (\<lambda>features.
         table_of_features features))) = Inr ts"
    unfolding calculate_time_series_EVI_def Let_def filtered_collection_Initialize
    by (simp only: fst_conv)
  then obtain ec where ec: "ee_map calc_evi ?coll = Inr ec"
    and run2: "py_bind (ee_map (reduce_region aoi) ec) (\<lambda>mapped.
       py_bind (getInfo (ee_Initialize s) mapped) (\<lambda>features.
         table_of_features features)) = Inr ts"
    by (cases "ee_map calc_evi ?coll") (simp_all add: py_bind_def)
  then obtain mapped where mp: "ee_map (reduce_region aoi) ec = Inr mapped"
    and run3: "py_bind (getInfo (ee_Initialize s) mapped) (\<lambda>features.
         table_of_features features) = Inr ts"
    by (cases "ee_map (reduce_region aoi) ec") (simp_all add: py_bind_def)
  then obtain features where gi: "getInfo (ee_Initialize s) mapped = Inr features"
    and tb: "table_of_features features = Inr ts"
    by (cases "getInfo (ee_Initialize s) mapped") (simp_all add: py_bind_def)
  from gi have mapped: "mapped = Inr features"
    by (cases mapped) (simp_all add: getInfo_Initialize)
  from ee_map_returns [OF mp [unfolded mapped]]
  obtain es where es: "ec = Inr es" and l2: "length features = length es" by blast
  from ee_map_returns [OF ec [unfolded es]]
  obtain imgs where imgs: "?coll = Inr imgs" and l1: "length es = length imgs" by blast
  from table_of_features_length [OF tb] l1 l2 imgs show ?thesis by simp
qed

lemma example_rasters:
  "band_raster (example_image t b r n) ''B2'' = [(0, 0) \<mapsto> b]"
  "band_raster (example_image t b r n) ''B4'' = [(0, 0) \<mapsto> r]"
  "band_raster (example_image t b r n) ''B8'' = [(0, 0) \<mapsto> n]"
  by (simp_all add: band_raster_def example_image_def)

lemma example_evi_at_origin:
  "n + 6 * r - 7.5 * b + 1 \<noteq> 0 \<Longrightarrow>
   evi_of (example_image t b r n) (0, 0) = Some (2.5 * ((n - r) / (n + 6 * r - 7.5 * b + 1)))"
  unfolding evi_of_def example_rasters evi_pixel_def
  by (simp only: fun_upd_same prod.case option.case if_False)


lemma example_region_mean_first:
  "region_mean [(0, 0)] (example_image t 0.05 0.1 0.5) = JNum (40 / 69)"
proof -
  have "evi_of (example_image t 0.05 0.1 0.5) (0, 0) = Some (40 / 69)"
    by (subst example_evi_at_origin) simp_all
  then show ?thesis
    by (simp add: region_mean_def List.map_filter_simps)
qed

lemma example_region_mean_second:
  "region_mean [(0, 0)] (example_image t 0.04 0.08 0.4) = JNum (40 / 79)"
proof -
  have "evi_of (example_image t 0.04 0.08 0.4) (0, 0) = Some (40 / 79)"
    by (subst example_evi_at_origin) simp_all
  then show ?thesis
    by (simp add: region_mean_def List.map_filter_simps)
qed


subsection \<open>The example data\<close>

lemma civil_from_days_19509: "civil_from_days 19509 = (2023, 6, 1)"
  by code_simp

lemma civil_from_days_19510: "civil_from_days 19510 = (2023, 6, 2)"
  by code_simp

lemma days_from_civil_2023_06: "days_from_civil 2023 6 1 = 19509" "days_from_civil 2023 6 2 = 19510"
  by code_simp+

lemma example_time_start: "time_start (example_image t b r n) = Some \<lfloor>t\<rfloor>"
  by (simp add: time_start_def example_image_def)

lemma example_band_names: "band_names (example_image t b r n) = [''B2'', ''B4'', ''B8'']"
  by (simp add: band_names_def example_image_def)

lemma example_days:
  "(1685577600000::int) div millis_per_day = 19509"
  "(1685620800000::int) div millis_per_day = 19509"
  "(1685664000000::int) div millis_per_day = 19510"
  by (simp_all add: millis_per_day_def)

lemma example_well_formed:
  "well_formed (example_image 1685577600000 b r n)"
  "well_formed (example_image 1685620800000 b r n)"
  "well_formed (example_image 1685664000000 b r n)"
  by (simp_all add: well_formed_def example_time_start example_band_names example_days
        civil_from_days_19509 civil_from_days_19510)

lemma example_image_date:
  "image_date (example_image 1685577600000 b r n) = Timestamp 1685577600000000000"
  "image_date (example_image 1685620800000 b r n) = Timestamp 1685577600000000000"
  "image_date (example_image 1685664000000 b r n) = Timestamp 1685664000000000000"
  by (simp_all add: image_date_def example_time_start example_days
        civil_from_days_19509 civil_from_days_19510 days_from_civil_2023_06 millis_per_day_def)

lemma example_in_range:
  "in_date_range 1685577600000 1685750400000 (example_image 1685664000000 b r n)"
  "in_date_range 1685577600000 1685750400000 (example_image 1685577600000 b r n)"
  "in_date_range 1685577600000 1685750400000 (example_image 1685620800000 b r n)"
  "\<not> in_date_range 1685577600000 1685750400000 (example_image 1685750400000 b r n)"
  by (simp_all add: in_date_range_def example_time_start)

lemma example_intersects:
  "intersects [(0, 0)] (example_image t b r n)"
  "intersects [(1, 0)] (example_image t b r n)"
  by (simp_all add: intersects_def example_image_def)

lemma example_filtered:
  assumes "g = [(0, 0)] \<or> g = [(1, 0)]"
  shows "filtered_collection example_backend ''TEST/S2'' ''2023-06-01'' ''2023-06-03'' g =
           Inr [example_image 1685664000000 0.05 0.1 0.5, example_image 1685577600000 0.04 0.08 0.4]"
proof -
  have c: "ee_ImageCollection example_backend ''TEST/S2'' =
             Inr [example_image 1685664000000 0.05 0.1 0.5,
                  example_image 1685577600000 0.04 0.08 0.4,
                  example_image 1685750400000 0.04 0.08 0.4]"
    by (simp add: ee_ImageCollection_def example_backend_def)
  have f: "ee_filterDate (ee_ImageCollection example_backend ''TEST/S2'') ''2023-06-01'' ''2023-06-03'' =
             Inr [example_image 1685664000000 0.05 0.1 0.5, example_image 1685577600000 0.04 0.08 0.4]"
    unfolding c ee_filterDate_def
    by (simp only: sum.case date_millis_2023_06_01 date_millis_2023_06_03 prod.case option.case
          filter.simps example_in_range if_True if_False)
  show ?thesis
    unfolding filtered_collection_def f ee_filterBounds_def
    using assms by (auto simp: example_intersects)
qed

lemma same_day_filtered:
  "filtered_collection same_day_backend ''TEST/S2'' ''2023-06-01'' ''2023-06-03'' [(0, 0)] =
     Inr [example_image 1685577600000 0.05 0.1 0.5, example_image 1685620800000 0.04 0.08 0.4]"
proof -
  have c: "ee_ImageCollection same_day_backend ''TEST/S2'' =
             Inr [example_image 1685577600000 0.05 0.1 0.5,
                  example_image 1685620800000 0.04 0.08 0.4]"
    by (simp add: ee_ImageCollection_def same_day_backend_def)
  have f: "ee_filterDate (ee_ImageCollection same_day_backend ''TEST/S2'') ''2023-06-01'' ''2023-06-03'' =
             Inr [example_image 1685577600000 0.05 0.1 0.5, example_image 1685620800000 0.04 0.08 0.4]"
    unfolding c ee_filterDate_def
    by (simp only: sum.case date_millis_2023_06_01 date_millis_2023_06_03 prod.case option.case
          filter.simps example_in_range if_True if_False)
  show ?thesis
    unfolding filtered_collection_def f ee_filterBounds_def
    by (simp add: example_intersects)
qed

subsection \<open>Rows, missing values and order of the table\<close>

text \<open>
  Claim C8. Whenever \<open>calculate_time_series_EVI\<close> returns a table, the collection
  filtered by date and region exists and the table has as many rows as the collection
  has images. When every image of the filtered collection is well formed, the call does
  return a table, and its rows are, image by image and in the order of the collection,
  the date of the image and the mean of its index over the region: images of the same
  calendar date each keep their own row.
\<close>

theorem extractor_row_count:
  "(\<forall>ts. fst (calculate_time_series_EVI s collection_name start_date end_date aoi) = Inr ts
       \<longrightarrow> (\<exists>imgs. filtered_collection s collection_name start_date end_date aoi = Inr imgs
                   \<and> length (rows ts) = length imgs))
   \<and> (\<forall>imgs. filtered_collection s collection_name start_date end_date aoi = Inr imgs
               \<and> (\<forall>d \<in> set imgs. well_formed d)
       \<longrightarrow> (\<exists>ts. fst (calculate_time_series_EVI s collection_name start_date end_date aoi) = Inr ts
                 \<and> rows ts = map (\<lambda>d. (image_date d, region_mean aoi d)) imgs
                 \<and> length (rows ts) = length imgs))"
proof (intro conjI allI impI)
  fix ts
  assume "fst (calculate_time_series_EVI s collection_name start_date end_date aoi) = Inr ts"
  from extractor_returns [OF this]
  show "\<exists>imgs. filtered_collection s collection_name start_date end_date aoi = Inr imgs
               \<and> length (rows ts) = length imgs"
    by (auto simp: rows_def)
next
  fix imgs
  assume a: "filtered_collection s collection_name start_date end_date aoi = Inr imgs
             \<and> (\<forall>d \<in> set imgs. well_formed d)"
  then have "fst (calculate_time_series_EVI s collection_name start_date end_date aoi) =
               Inr \<lparr>Date = map image_date imgs, EVI = map (region_mean aoi) imgs\<rparr>"
    by (intro extractor_result) simp_all
  moreover have "rows \<lparr>Date = map image_date imgs, EVI = map (region_mean aoi) imgs\<rparr> =
                   map (\<lambda>d. (image_date d, region_mean aoi d)) imgs"
    by (simp add: rows_def zip_map_map) (induction imgs; simp)
  ultimately show "\<exists>ts. fst (calculate_time_series_EVI s collection_name start_date end_date aoi) = Inr ts
                 \<and> rows ts = map (\<lambda>d. (image_date d, region_mean aoi d)) imgs
                 \<and> length (rows ts) = length imgs"
    by simp
qed

theorem extractor_row_count_witness:
  "filtered_collection same_day_backend ''TEST/S2'' ''2023-06-01'' ''2023-06-03'' [(0, 0)] =
     Inr [example_image 1685577600000 0.05 0.1 0.5, example_image 1685620800000 0.04 0.08 0.4]
   \<and> well_formed (example_image 1685577600000 0.05 0.1 0.5)
   \<and> well_formed (example_image 1685620800000 0.04 0.08 0.4)
   \<and> (\<exists>ts. fst (calculate_time_series_EVI same_day_backend ''TEST/S2'' ''2023-06-01'' ''2023-06-03''
                   [(0, 0)]) = Inr ts
           \<and> rows ts = [(Timestamp 1685577600000000000, JNum (40 / 69)),
                        (Timestamp 1685577600000000000, JNum (40 / 79))]
           \<and> (\<exists>imgs. filtered_collection same_day_backend ''TEST/S2'' ''2023-06-01'' ''2023-06-03''
                        [(0, 0)] = Inr imgs \<and> length (rows ts) = length imgs))"
proof -
  let ?imgs = "[example_image 1685577600000 0.05 0.1 0.5, example_image 1685620800000 0.04 0.08 0.4]"
  let ?call = "fst (calculate_time_series_EVI same_day_backend ''TEST/S2'' ''2023-06-01''
                      ''2023-06-03'' [(0, 0)])"
  note claim = extractor_row_count [of same_day_backend "''TEST/S2''" "''2023-06-01''"
                                      "''2023-06-03''" "[(0, 0)]"]
  have wf: "\<forall>d \<in> set ?imgs. well_formed d"
    by (simp add: example_well_formed)
  from claim same_day_filtered wf
  obtain ts where ts: "?call = Inr ts"
    and r: "rows ts = map (\<lambda>d. (image_date d, region_mean [(0, 0)] d)) ?imgs"
    by blast
  from claim ts
  have conv: "\<exists>imgs. filtered_collection same_day_backend ''TEST/S2'' ''2023-06-01'' ''2023-06-03''
                        [(0, 0)] = Inr imgs \<and> length (rows ts) = length imgs"
    by blast
  from r have "rows ts = [(Timestamp 1685577600000000000, JNum (40 / 69)),
                          (Timestamp 1685577600000000000, JNum (40 / 79))]"
    by (simp only: list.map example_image_date example_region_mean_first
          example_region_mean_second)
  with ts conv same_day_filtered example_well_formed show ?thesis by blast
qed



text \<open>
  Claim C1, as the code has it. The table keeps the order in which the service returns
  the images: for well-formed images the index \<open>Date\<close> is the list of the dates of the
  images of the filtered collection, in the order of the collection, and no step sorts
  it. So the table is sorted by date exactly when the images of the collection come in
  the order of their dates.
\<close>

theorem extractor_keeps_backend_order:
  assumes "filtered_collection s collection_name start_date end_date aoi = Inr imgs"
      and "\<forall>d \<in> set imgs. well_formed d"
  shows "\<exists>ts. fst (calculate_time_series_EVI s collection_name start_date end_date aoi) = Inr ts
              \<and> Date ts = map image_date imgs
              \<and> (sorted_wrt date_le (Date ts) \<longleftrightarrow>
                   sorted_wrt (\<lambda>d e. date_le (image_date d) (image_date e)) imgs)"
proof -
  have "fst (calculate_time_series_EVI s collection_name start_date end_date aoi) =
               Inr \<lparr>Date = map image_date imgs, EVI = map (region_mean aoi) imgs\<rparr>"
    using assms by (intro extractor_result) simp_all
  then show ?thesis
    by (simp add: sorted_wrt_map)
qed

theorem extractor_keeps_backend_order_witness:
  "filtered_collection same_day_backend ''TEST/S2'' ''2023-06-01'' ''2023-06-03'' [(0, 0)] =
     Inr [example_image 1685577600000 0.05 0.1 0.5, example_image 1685620800000 0.04 0.08 0.4]
   \<and> well_formed (example_image 1685577600000 0.05 0.1 0.5)
   \<and> well_formed (example_image 1685620800000 0.04 0.08 0.4)
   \<and> (\<exists>ts. fst (calculate_time_series_EVI same_day_backend ''TEST/S2'' ''2023-06-01'' ''2023-06-03''
                   [(0, 0)]) = Inr ts
           \<and> Date ts = [Timestamp 1685577600000000000, Timestamp 1685577600000000000]
           \<and> sorted_wrt date_le (Date ts))"
proof -
  let ?imgs = "[example_image 1685577600000 0.05 0.1 0.5, example_image 1685620800000 0.04 0.08 0.4]"
  have wf: "\<forall>d \<in> set ?imgs. well_formed d"
    by (simp add: example_well_formed)
  from extractor_keeps_backend_order [OF same_day_filtered wf]
  obtain ts where ts: "fst (calculate_time_series_EVI same_day_backend ''TEST/S2'' ''2023-06-01''
                              ''2023-06-03'' [(0, 0)]) = Inr ts"
    and d: "Date ts = map image_date ?imgs"
    by blast
  from d have d': "Date ts = [Timestamp 1685577600000000000, Timestamp 1685577600000000000]"
    by (simp only: list.map example_image_date)
  then have "sorted_wrt date_le (Date ts)" by simp
  with ts d' same_day_filtered example_well_formed show ?thesis by blast
qed

text \<open>
  Claim C1, as stated, fails: the service returns the image of 2023-06-02 before the
  image of 2023-06-01, and the table has the two rows in that order.
\<close>

theorem extractor_sorted_counterexample:
  "fst (calculate_time_series_EVI example_backend ''TEST/S2'' ''2023-06-01'' ''2023-06-03'' [(0, 0)]) =
     Inr \<lparr>Date = [Timestamp 1685664000000000000, Timestamp 1685577600000000000],
          EVI = [JNum (40 / 69), JNum (40 / 79)]\<rparr>
   \<and> \<not> sorted_wrt date_le [Timestamp 1685664000000000000, Timestamp 1685577600000000000]"
proof -
  let ?imgs = "[example_image 1685664000000 0.05 0.1 0.5, example_image 1685577600000 0.04 0.08 0.4]"
  have coll: "filtered_collection example_backend ''TEST/S2'' ''2023-06-01'' ''2023-06-03'' [(0, 0)] =
                Inr ?imgs"
    by (rule example_filtered) simp
  have wf: "\<And>d. d \<in> set ?imgs \<Longrightarrow> well_formed d"
    by (auto simp: example_well_formed)
  from extractor_result [OF coll wf]
  have "fst (calculate_time_series_EVI example_backend ''TEST/S2'' ''2023-06-01'' ''2023-06-03''
               [(0, 0)]) =
          Inr \<lparr>Date = map image_date ?imgs, EVI = map (region_mean [(0, 0)]) ?imgs\<rparr>"
    by simp
  then have "fst (calculate_time_series_EVI example_backend ''TEST/S2'' ''2023-06-01'' ''2023-06-03''
               [(0, 0)]) =
     Inr \<lparr>Date = [Timestamp 1685664000000000000, Timestamp 1685577600000000000],
          EVI = [JNum (40 / 69), JNum (40 / 79)]\<rparr>"
    by (simp only: list.map example_image_date example_region_mean_first
          example_region_mean_second)
  moreover have "\<not> sorted_wrt date_le [Timestamp 1685664000000000000, Timestamp 1685577600000000000]"
    by simp
  ultimately show ?thesis by blast
qed

end
